theory Spec2Isabelle
  imports Main "HOL-Library.Word" "HOL-Library.AList" "HOL-Library.Sublist"
    "HOL-Library.Char_ord" "HOL-Library.List_Lexorder" "HOL-Library.Product_Lexorder"
begin

section \<open>Configuration constants (config.roles, config.auditEvents)\<close>

definition roles_ADMIN :: string where "roles_ADMIN = ''admin''"
definition roles_HR :: string where "roles_HR = ''hr''"
definition roles_EMPLOYEE :: string where "roles_EMPLOYEE = ''employee''"

definition DOCUMENT_UPLOAD :: string where "DOCUMENT_UPLOAD = ''document_upload''"
definition DOCUMENT_DOWNLOAD :: string where "DOCUMENT_DOWNLOAD = ''document_download''"
definition DOCUMENT_DELETE :: string where "DOCUMENT_DELETE = ''document_delete''"
definition ROLE_CHANGE :: string where "ROLE_CHANGE = ''role_change''"
definition ACCESS_DENIED :: string where "ACCESS_DENIED = ''access_denied''"

section \<open>Principals and document metadata\<close>

text \<open>
  The user object attached to a request (\<open>verifyToken\<close>): \<open>uid\<close> and \<open>email\<close> are always
  set, \<open>role\<close> and \<open>employeeId\<close> come from the custom claims and may be \<open>undefined\<close>
  (\<open>None\<close>).
\<close>

record user =
  uid :: string
  email :: string
  role :: "string option"
  employeeId :: "string option"

text \<open>
  The Firestore document of an uploaded file: the metadata built by
  \<open>StorageService.uploadDocument\<close> merged with the fields that
  \<open>DocumentService.uploadDocument\<close> adds, and the fields the soft delete writes.
  A field that may be missing (\<open>undefined\<close>) is an option. The timestamps the store
  writes are milliseconds; \<open>uploadedAt\<close> is the string \<open>new Date().toISOString()\<close> that
  \<open>StorageService.uploadDocument\<close> put into the metadata.
  \<open>docEmployeeId\<close> is the document's \<open>employeeId\<close> and \<open>docSize\<close> its \<open>size\<close>. The fields
  that none of the functions below reads (\<open>id\<close>, \<open>fileHash\<close>, \<open>encryptedSize\<close>,
  \<open>uploadedBy\<close>, \<open>lastModified\<close>, \<open>tags\<close>, \<open>description\<close>, \<open>encryptionInfo\<close>,
  \<open>createdAt\<close>, \<open>permissions\<close>) are left out.
\<close>

record documentMetadata =
  originalName :: string
  fileName :: string
  mimeType :: string
  docSize :: nat
  documentType :: string
  docEmployeeId :: "string option"
  ownerId :: "string option"
  uploadedAt :: string
  version :: nat
  isActive :: bool
  accessCount :: nat
  lastAccessed :: "int option"
  sharedWith :: "string list option"
  deletedAt :: "int option"
  deletedBy :: "string option"
  updatedAt :: int

section \<open>FirebaseService: hasRole and canAccessDocument\<close>

text \<open>\<open>requiredRoles\<close> is a single role or an array of roles.\<close>

datatype requiredRoles = Role string | Roles "string list"

fun rolesArray :: "requiredRoles \<Rightarrow> string list" where
  "rolesArray (Role r) = [r]"
| "rolesArray (Roles rs) = rs"

text \<open>
  \<open>if (!user || !user.role) return false\<close>: a missing user, a missing role and the empty
  string are all falsy. Otherwise \<open>roles.includes(user.role)\<close>.
\<close>

fun hasRole :: "user option \<Rightarrow> requiredRoles \<Rightarrow> bool" where
  "hasRole None requiredRoles = False"
| "hasRole (Some u) requiredRoles =
     (case role u of
        None \<Rightarrow> False
      | Some r \<Rightarrow> if r = [] then False else r \<in> set (rolesArray requiredRoles))"

fun firebase_canAccessDocument :: "user option \<Rightarrow> documentMetadata option \<Rightarrow> bool" where
  "firebase_canAccessDocument None document = False"
| "firebase_canAccessDocument (Some u) None = False"
| "firebase_canAccessDocument (Some u) (Some d) =
     (if role u = Some roles_ADMIN then True
      else if role u = Some roles_HR then True
      else if role u = Some roles_EMPLOYEE
        then docEmployeeId d = employeeId u \<or> ownerId d = Some (uid u)
      else False)"

section \<open>DocumentService: the permission predicates\<close>

text \<open>
  \<open>canAccessDocument\<close> is \<open>a || b\<close> with \<open>b = documentMetadata.sharedWith?.includes(uid)\<close>,
  which is \<open>undefined\<close> when the document has no \<open>sharedWith\<close> field: the result is a
  boolean or \<open>undefined\<close> (\<open>None\<close>), and the callers test its truthiness.
\<close>

definition truthy :: "bool option \<Rightarrow> bool" where
  "truthy v = (v = Some True)"

definition canUploadDocument :: "user \<Rightarrow> 'm \<Rightarrow> bool" where
  "canUploadDocument userInfo metadata = hasRole (Some userInfo) (Roles [roles_HR, roles_ADMIN])"

definition canAccessDocument :: "user \<Rightarrow> documentMetadata \<Rightarrow> bool option" where
  "canAccessDocument userInfo d =
     (if firebase_canAccessDocument (Some userInfo) (Some d) then Some True
      else (case sharedWith d of
              None \<Rightarrow> None
            | Some sw \<Rightarrow> Some (uid userInfo \<in> set sw)))"

definition canDeleteDocument :: "user \<Rightarrow> documentMetadata \<Rightarrow> bool" where
  "canDeleteDocument userInfo d = hasRole (Some userInfo) (Roles [roles_ADMIN, roles_HR])"

definition canShareDocument :: "user \<Rightarrow> documentMetadata \<Rightarrow> bool" where
  "canShareDocument userInfo d =
     (ownerId d = Some (uid userInfo) \<or> hasRole (Some userInfo) (Roles [roles_ADMIN, roles_HR]))"

section \<open>JavaScript values\<close>

text \<open>
  Event payloads, request contexts and audit records are plain JavaScript objects. An object
  literal is the list of its properties in source order; reading a property finds the last
  one of that name (a repeated key overrides the earlier one) and gives \<open>undefined\<close> when
  there is none.
\<close>

datatype jsval =
    JUndefined
  | JNull
  | JBool bool
  | JNum int
  | JStr string
  | JArr "jsval list"
  | JObj "(string \<times> jsval) list"

fun getProp :: "jsval \<Rightarrow> string \<Rightarrow> jsval" where
  "getProp (JObj kvs) k = (case map_of (rev kvs) k of None \<Rightarrow> JUndefined | Some v \<Rightarrow> v)"
| "getProp v k = JUndefined"

fun jsTruthy :: "jsval \<Rightarrow> bool" where
  "jsTruthy JUndefined = False"
| "jsTruthy JNull = False"
| "jsTruthy (JBool b) = b"
| "jsTruthy (JNum n) = (n \<noteq> 0)"
| "jsTruthy (JStr s) = (s \<noteq> [])"
| "jsTruthy (JArr xs) = True"
| "jsTruthy (JObj kvs) = True"

text \<open>\<open>a || b\<close>\<close>

definition orElse :: "jsval \<Rightarrow> jsval \<Rightarrow> jsval" where
  "orElse a b = (if jsTruthy a then a else b)"

fun optStr :: "string option \<Rightarrow> jsval" where
  "optStr None = JUndefined"
| "optStr (Some s) = JStr s"

section \<open>Errors, the environment and the stores\<close>

text \<open>A thrown \<open>Error\<close> with its message.\<close>

datatype error = Error string

fun message :: "error \<Rightarrow> string" where
  "message (Error m) = m"

datatype consoleLine = ConsoleLog string jsval | ConsoleError string error

text \<open>The result of \<open>StorageService.uploadDocument\<close>: the document id it generated and the
  metadata it built (\<open>uploadResult.fileName\<close> is the \<open>fileName\<close> of that metadata).\<close>

record uploadResult =
  documentId :: string
  resultMetadata :: documentMetadata

text \<open>
  What the services do not decide themselves: the values \<open>uuidv4()\<close> returns, whether an
  operation on the audit collection or on the documents collection is rejected by the
  store, and the outcome of the calls to the storage service (blob store, encryption and
  key service behind it). Each is a function of the number of earlier calls, so that every
  behaviour of these collaborators is some environment.
\<close>

record env =
  uuidv4 :: "nat \<Rightarrow> string"
  auditStoreFails :: "nat \<Rightarrow> bool"
  documentStoreFails :: "nat \<Rightarrow> bool"
  storage_uploadDocument :: "nat \<Rightarrow> 8 word list \<Rightarrow> jsval \<Rightarrow> user \<Rightarrow> error + uploadResult"
  storage_downloadDocument :: "nat \<Rightarrow> string \<Rightarrow> user \<Rightarrow> error + 8 word list"
  storage_deleteDocument :: "nat \<Rightarrow> string \<Rightarrow> user \<Rightarrow> error + unit"
  storage_generateSignedUrl :: "nat \<Rightarrow> string \<Rightarrow> jsval \<Rightarrow> error + string"
  npm_package_version :: "string option"
  nodeEnv :: string

text \<open>
  The two Firestore collections (document id and data, keys distinct), the console, the
  current time in milliseconds, and the counters of calls made to the environment.
\<close>

record world =
  documentsCollection :: "(string \<times> documentMetadata) list"
  auditCollection :: "(string \<times> jsval) list"
  console :: "consoleLine list"
  now :: int
  uuidCalls :: nat
  auditOps :: nat
  documentOps :: nat
  storageCalls :: nat

text \<open>
  An asynchronous operation: it runs on the world and either throws or returns a value.
  \<open>andThen\<close> is \<open>await\<close> followed by the rest of the block, \<open>tryCatch\<close> is
  \<open>try { ... } catch (error) { ... }\<close>.
\<close>

type_synonym 'a io = "world \<Rightarrow> (error + 'a) \<times> world"

definition ret :: "'a \<Rightarrow> 'a io" where
  "ret x w = (Inr x, w)"

definition throw :: "error \<Rightarrow> 'a io" where
  "throw e w = (Inl e, w)"

definition andThen :: "'a io \<Rightarrow> ('a \<Rightarrow> 'b io) \<Rightarrow> 'b io" where
  "andThen m f w = (case m w of (Inl e, w') \<Rightarrow> (Inl e, w') | (Inr x, w') \<Rightarrow> f x w')"

definition tryCatch :: "'a io \<Rightarrow> (error \<Rightarrow> 'a io) \<Rightarrow> 'a io" where
  "tryCatch m h w = (case m w of (Inl e, w') \<Rightarrow> h e w' | (Inr x, w') \<Rightarrow> (Inr x, w'))"

definition consoleLog :: "string \<Rightarrow> jsval \<Rightarrow> unit io" where
  "consoleLog msg v w = (Inr (), w\<lparr>console := console w @ [ConsoleLog msg v]\<rparr>)"

definition consoleError :: "string \<Rightarrow> error \<Rightarrow> unit io" where
  "consoleError msg e w = (Inr (), w\<lparr>console := console w @ [ConsoleError msg e]\<rparr>)"

definition nextUuid :: "env \<Rightarrow> string io" where
  "nextUuid env w = (Inr (uuidv4 env (uuidCalls w)), w\<lparr>uuidCalls := Suc (uuidCalls w)\<rparr>)"

text \<open>One operation on the audit collection: the store rejects it or runs \<open>f\<close>.\<close>

definition auditOp :: "env \<Rightarrow> (world \<Rightarrow> 'a \<times> world) \<Rightarrow> 'a io" where
  "auditOp env f w =
     (let w1 = w\<lparr>auditOps := Suc (auditOps w)\<rparr> in
      if auditStoreFails env (auditOps w) then (Inl (Error ''audit store unavailable''), w1)
      else (case f w1 of (x, w2) \<Rightarrow> (Inr x, w2)))"

definition documentOp :: "env \<Rightarrow> (world \<Rightarrow> 'a \<times> world) \<Rightarrow> 'a io" where
  "documentOp env f w =
     (let w1 = w\<lparr>documentOps := Suc (documentOps w)\<rparr> in
      if documentStoreFails env (documentOps w) then (Inl (Error ''document store unavailable''), w1)
      else (case f w1 of (x, w2) \<Rightarrow> (Inr x, w2)))"

section \<open>AuditService\<close>

definition isCriticalEvent :: "jsval \<Rightarrow> bool" where
  "isCriticalEvent eventType =
     (eventType \<in> set [JStr DOCUMENT_DELETE, JStr ROLE_CHANGE, JStr ACCESS_DENIED])"

text \<open>The record \<open>logEvent\<close> builds; \<open>serverTimestamp()\<close> is the time of the write.\<close>

definition buildAuditLog :: "env \<Rightarrow> string \<Rightarrow> int \<Rightarrow> jsval \<Rightarrow> jsval" where
  "buildAuditLog env auditLogId timestamp eventData = JObj [
     (''id'', JStr auditLogId),
     (''eventType'', getProp eventData ''eventType''),
     (''timestamp'', JNum timestamp),
     (''user'', JObj [
        (''uid'', getProp eventData ''userId''),
        (''email'', getProp eventData ''userEmail''),
        (''role'', getProp eventData ''userRole''),
        (''employeeId'', getProp eventData ''employeeId'')]),
     (''resource'', orElse (getProp eventData ''resource'') JNull),
     (''action'', JObj [
        (''success'', JBool (getProp eventData ''success'' \<noteq> JBool False)),
        (''errorMessage'', orElse (getProp eventData ''errorMessage'') JNull),
        (''duration'', orElse (getProp eventData ''duration'') JNull)]),
     (''context'', JObj [
        (''ipAddress'', getProp eventData ''ipAddress''),
        (''userAgent'', getProp eventData ''userAgent''),
        (''sessionId'', getProp eventData ''sessionId''),
        (''requestId'', getProp eventData ''requestId'')]),
     (''metadata'', orElse (getProp eventData ''metadata'') (JObj [])),
     (''compliance'', JObj [
        (''dataClassification'',
           orElse (getProp eventData ''dataClassification'') (JStr ''confidential'')),
        (''retentionPeriod'', orElse (getProp eventData ''retentionPeriod'') (JNum 2555)),
        (''gdprApplicable'', JBool (getProp eventData ''gdprApplicable'' \<noteq> JBool False))]),
     (''system'', JObj [
        (''version'', orElse (optStr (npm_package_version env)) (JStr ''1.0.0'')),
        (''environment'', JStr (nodeEnv env)),
        (''service'', JStr ''secure-digital-locker'')])]"

text \<open>\<open>this.auditCollection.doc(auditLogId).set(auditLog)\<close>\<close>

definition auditCollection_set :: "env \<Rightarrow> string \<Rightarrow> jsval \<Rightarrow> unit io" where
  "auditCollection_set env docId auditLog =
     auditOp env (\<lambda>w. ((), w\<lparr>auditCollection := AList.update docId auditLog (auditCollection w)\<rparr>))"

text \<open>
  \<open>logEvent\<close>, and the typed helpers \<open>logDocumentUpload\<close>, \<open>logDocumentDownload\<close>,
  \<open>logDocumentDelete\<close> and \<open>logAccessDenied\<close>: each builds an event object from its
  \<open>data\<close> and passes it to \<open>logEvent\<close>.
\<close>

definition logEvent :: "env \<Rightarrow> jsval \<Rightarrow> jsval io" where
  "logEvent env eventData =
     tryCatch
       (andThen (nextUuid env) (\<lambda>auditLogId.
        andThen (\<lambda>w. auditCollection_set env auditLogId
                        (buildAuditLog env auditLogId (now w) eventData) w) (\<lambda>_.
        andThen (if isCriticalEvent (getProp eventData ''eventType'')
                 then (\<lambda>w. consoleLog (''AUDIT: '' @ (case getProp eventData ''eventType'' of
                                                          JStr t \<Rightarrow> t | _ \<Rightarrow> []))
                              (JObj [(''userId'', getProp eventData ''userId''),
                                     (''resource'', getProp eventData ''resource''),
                                     (''success'', getProp eventData ''success''),
                                     (''timestamp'', JNum (now w))]) w)
                 else ret ()) (\<lambda>_.
        ret (JStr auditLogId)))))
       (\<lambda>error.
        andThen (consoleError ''Error logging audit event:'' error) (\<lambda>_.
        ret JNull))"

definition documentUploadEvent :: "jsval \<Rightarrow> jsval" where
  "documentUploadEvent data = JObj [
     (''eventType'', JStr DOCUMENT_UPLOAD),
     (''userId'', getProp data ''userId''),
     (''userEmail'', getProp data ''userEmail''),
     (''userRole'', getProp data ''userRole''),
     (''employeeId'', getProp data ''employeeId''),
     (''resource'', JObj [
        (''type'', JStr ''document''),
        (''id'', getProp data ''documentId''),
        (''name'', getProp data ''documentName''),
        (''type'', getProp data ''documentType''),
        (''size'', getProp data ''fileSize''),
        (''employeeId'', getProp data ''documentEmployeeId'')]),
     (''metadata'', JObj [
        (''fileName'', getProp data ''fileName''),
        (''mimeType'', getProp data ''mimeType''),
        (''encrypted'', JBool True),
        (''encryptionAlgorithm'', getProp data ''encryptionAlgorithm'')]),
     (''ipAddress'', getProp data ''ipAddress''),
     (''userAgent'', getProp data ''userAgent''),
     (''success'', getProp data ''success''),
     (''errorMessage'', getProp data ''errorMessage'')]"

definition logDocumentUpload :: "env \<Rightarrow> jsval \<Rightarrow> jsval io" where
  "logDocumentUpload env data = logEvent env (documentUploadEvent data)"

definition documentDownloadEvent :: "jsval \<Rightarrow> jsval" where
  "documentDownloadEvent data = JObj [
     (''eventType'', JStr DOCUMENT_DOWNLOAD),
     (''userId'', getProp data ''userId''),
     (''userEmail'', getProp data ''userEmail''),
     (''userRole'', getProp data ''userRole''),
     (''employeeId'', getProp data ''employeeId''),
     (''resource'', JObj [
        (''type'', JStr ''document''),
        (''id'', getProp data ''documentId''),
        (''name'', getProp data ''documentName''),
        (''employeeId'', getProp data ''documentEmployeeId'')]),
     (''metadata'', JObj [
        (''accessMethod'', orElse (getProp data ''accessMethod'') (JStr ''direct'')),
        (''downloadSize'', getProp data ''downloadSize'')]),
     (''ipAddress'', getProp data ''ipAddress''),
     (''userAgent'', getProp data ''userAgent''),
     (''success'', getProp data ''success''),
     (''errorMessage'', getProp data ''errorMessage'')]"

definition logDocumentDownload :: "env \<Rightarrow> jsval \<Rightarrow> jsval io" where
  "logDocumentDownload env data = logEvent env (documentDownloadEvent data)"

definition documentDeleteEvent :: "jsval \<Rightarrow> jsval" where
  "documentDeleteEvent data = JObj [
     (''eventType'', JStr DOCUMENT_DELETE),
     (''userId'', getProp data ''userId''),
     (''userEmail'', getProp data ''userEmail''),
     (''userRole'', getProp data ''userRole''),
     (''employeeId'', getProp data ''employeeId''),
     (''resource'', JObj [
        (''type'', JStr ''document''),
        (''id'', getProp data ''documentId''),
        (''name'', getProp data ''documentName''),
        (''employeeId'', getProp data ''documentEmployeeId'')]),
     (''metadata'', JObj [
        (''reason'', orElse (getProp data ''reason'') (JStr ''user_request'')),
        (''permanentDeletion'', orElse (getProp data ''permanentDeletion'') (JBool False))]),
     (''ipAddress'', getProp data ''ipAddress''),
     (''userAgent'', getProp data ''userAgent''),
     (''success'', getProp data ''success''),
     (''errorMessage'', getProp data ''errorMessage''),
     (''dataClassification'', JStr ''confidential'')]"

definition logDocumentDelete :: "env \<Rightarrow> jsval \<Rightarrow> jsval io" where
  "logDocumentDelete env data = logEvent env (documentDeleteEvent data)"

definition accessDeniedEvent :: "jsval \<Rightarrow> jsval" where
  "accessDeniedEvent data = JObj [
     (''eventType'', JStr ACCESS_DENIED),
     (''userId'', getProp data ''userId''),
     (''userEmail'', getProp data ''userEmail''),
     (''userRole'', getProp data ''userRole''),
     (''employeeId'', getProp data ''employeeId''),
     (''resource'', getProp data ''resource''),
     (''metadata'', JObj [
        (''attemptedAction'', getProp data ''attemptedAction''),
        (''reason'', getProp data ''reason''),
        (''requiredRole'', getProp data ''requiredRole'')]),
     (''ipAddress'', getProp data ''ipAddress''),
     (''userAgent'', getProp data ''userAgent''),
     (''success'', JBool False),
     (''errorMessage'',
        orElse (getProp data ''errorMessage'')
          (JStr ''Access denied due to insufficient permissions''))]"

definition logAccessDenied :: "env \<Rightarrow> jsval \<Rightarrow> jsval io" where
  "logAccessDenied env data = logEvent env (accessDeniedEvent data)"

text \<open>The stored records of one event type.\<close>

definition eventsOfType :: "string \<Rightarrow> world \<Rightarrow> (string \<times> jsval) list" where
  "eventsOfType t w = filter (\<lambda>row. getProp (snd row) ''eventType'' = JStr t) (auditCollection w)"

text \<open>
  \<open>cleanupOldLogs(retentionDays = 2555)\<close>. The cutoff is the current date moved back by
  \<open>retentionDays\<close> calendar days (days of 24 hours: the server clock is UTC). The query
  \<open>where('timestamp', '<', cutoff).limit(500)\<close> gives at most 500 of the matching records,
  the batch deletes exactly those (by document reference) and commits atomically. A
  rejected query or commit is logged and rethrown.
\<close>

definition msPerDay :: int where
  "msPerDay = 86400000"

definition olderThan :: "int \<Rightarrow> string \<times> jsval \<Rightarrow> bool" where
  "olderThan cutoff doc =
     (case getProp (snd doc) ''timestamp'' of JNum t \<Rightarrow> t < cutoff | _ \<Rightarrow> False)"

definition cleanupOldLogs :: "env \<Rightarrow> int option \<Rightarrow> nat io" where
  "cleanupOldLogs env retentionDaysArg =
     tryCatch
       (\<lambda>w.
          (let retentionDays = (case retentionDaysArg of None \<Rightarrow> 2555 | Some d \<Rightarrow> d);
               cutoffDate = now w - retentionDays * msPerDay
           in andThen
                (auditOp env (\<lambda>w1. (take 500 (filter (olderThan cutoffDate) (auditCollection w1)), w1)))
                (\<lambda>snapshot.
                   if snapshot = [] then ret 0
                   else
                     andThen
                       (auditOp env (\<lambda>w2.
                          ((), w2\<lparr>auditCollection :=
                                   filter (\<lambda>doc. fst doc \<notin> set (map fst snapshot))
                                     (auditCollection w2)\<rparr>)))
                       (\<lambda>_.
                     andThen
                       (consoleLog ''Deleted old audit logs'' (JNum (int (length snapshot))))
                       (\<lambda>_.
                     ret (length snapshot)))))
             w)
       (\<lambda>error.
        andThen (consoleError ''Error cleaning up old logs:'' error) (\<lambda>_.
        throw error))"

section \<open>The admin route POST /cleanup-logs\<close>

text \<open>
  The handler behind \<open>authenticate\<close>, \<open>requireAdmin\<close> and the rate limiter. The body's
  \<open>retentionDays\<close> is a number or absent (then 2555). A retention below 365 days is answered
  with status 400 before anything else happens.
\<close>

record request =
  reqUser :: user
  bodyRetentionDays :: "int option"
  requestContext :: jsval

record response =
  status :: nat
  json :: jsval

definition cleanupLogsRoute :: "env \<Rightarrow> request \<Rightarrow> response io" where
  "cleanupLogsRoute env req =
     tryCatch
       (let retentionDays = (case bodyRetentionDays req of None \<Rightarrow> 2555 | Some d \<Rightarrow> d) in
        if retentionDays < 365 then
          ret \<lparr>status = 400, json = JObj [
            (''error'', JStr ''Retention period must be at least 365 days for compliance''),
            (''code'', JStr ''INVALID_RETENTION'')]\<rparr>
        else
          andThen (cleanupOldLogs env (Some retentionDays)) (\<lambda>deletedCount.
          andThen (logEvent env (JObj [
              (''eventType'', JStr ROLE_CHANGE),
              (''userId'', JStr (uid (reqUser req))),
              (''userEmail'', JStr (email (reqUser req))),
              (''userRole'', optStr (role (reqUser req))),
              (''employeeId'', optStr (employeeId (reqUser req))),
              (''metadata'', JObj [
                 (''action'', JStr ''cleanup_audit_logs''),
                 (''retentionDays'', JNum retentionDays),
                 (''deletedCount'', JNum (int deletedCount))]),
              (''ipAddress'', getProp (requestContext req) ''ipAddress''),
              (''userAgent'', getProp (requestContext req) ''userAgent''),
              (''success'', JBool True)])) (\<lambda>_.
          (\<lambda>w. ret \<lparr>status = 200, json = JObj [
              (''success'', JBool True),
              (''message'', JStr ''Audit logs cleanup completed''),
              (''data'', JObj [
                 (''deletedCount'', JNum (int deletedCount)),
                 (''retentionDays'', JNum retentionDays),
                 (''performedBy'', JStr (email (reqUser req))),
                 (''timestamp'', JNum (now w))])]\<rparr> w))))
       (\<lambda>error.
        andThen (consoleError ''Cleanup logs error:'' error) (\<lambda>_.
        ret \<lparr>status = 500, json = JObj [
          (''error'', JStr ''Failed to cleanup audit logs''),
          (''code'', JStr ''CLEANUP_FAILED''),
          (''message'', JStr (message error))]\<rparr>))"

section \<open>DocumentService: the operations\<close>

text \<open>
  The documents collection: \<open>doc(id).get()\<close>, \<open>doc(id).set(data)\<close> and
  \<open>docRef.update(changes)\<close>, which fails when the document does not exist.
\<close>

definition documentsCollection_get :: "env \<Rightarrow> string \<Rightarrow> documentMetadata option io" where
  "documentsCollection_get env docId =
     documentOp env (\<lambda>w. (map_of (documentsCollection w) docId, w))"

definition documentsCollection_set :: "env \<Rightarrow> string \<Rightarrow> documentMetadata \<Rightarrow> unit io" where
  "documentsCollection_set env docId d =
     documentOp env
       (\<lambda>w. ((), w\<lparr>documentsCollection := AList.update docId d (documentsCollection w)\<rparr>))"

definition docRef_update :: "env \<Rightarrow> string \<Rightarrow> (documentMetadata \<Rightarrow> documentMetadata) \<Rightarrow> unit io" where
  "docRef_update env docId change =
     andThen (documentOp env (\<lambda>w. (map_of (documentsCollection w) docId, w))) (\<lambda>found.
       case found of
         None \<Rightarrow> throw (Error ''No document to update'')
       | Some d \<Rightarrow> (\<lambda>w. (Inr (), w\<lparr>documentsCollection :=
                                        AList.update docId (change d) (documentsCollection w)\<rparr>)))"

text \<open>A call to the storage service: its outcome is the environment's.\<close>

definition storageCall :: "(nat \<Rightarrow> error + 'a) \<Rightarrow> 'a io" where
  "storageCall f w = (f (storageCalls w), w\<lparr>storageCalls := Suc (storageCalls w)\<rparr>)"

text \<open>The identity of the caller, as every audit call of the service passes it.\<close>

definition userFields :: "user \<Rightarrow> (string \<times> jsval) list" where
  "userFields userInfo =
     [(''userId'', JStr (uid userInfo)),
      (''userEmail'', JStr (email userInfo)),
      (''userRole'', optStr (role userInfo)),
      (''employeeId'', optStr (employeeId userInfo))]"

definition contextFields :: "jsval \<Rightarrow> (string \<times> jsval) list" where
  "contextFields requestInfo =
     [(''ipAddress'', getProp requestInfo ''ipAddress''),
      (''userAgent'', getProp requestInfo ''userAgent'')]"

text \<open>
  \<open>uploadDocument(fileBuffer, metadata, userInfo, requestInfo)\<close>. The \<open>duration\<close> the
  service passes to the logging helpers is left out: the helpers do not read it. The two
  objects of the denial path, the one given to \<open>logAccessDenied\<close> and the one the catch
  block gives to \<open>logDocumentUpload\<close>, have names. The \<open>uploadedAt\<close> of the response,
  \<open>new Date().toISOString()\<close>, is given as the clock value.
\<close>

definition uploadDenied :: "user \<Rightarrow> jsval \<Rightarrow> jsval" where
  "uploadDenied userInfo requestInfo = JObj (userFields userInfo @
     [(''resource'', JObj [(''type'', JStr ''document''), (''action'', JStr ''upload'')]),
      (''attemptedAction'', JStr ''upload_document''),
      (''reason'', JStr ''insufficient_permissions''),
      (''requiredRole'', JArr [JStr roles_HR, JStr roles_ADMIN])]
     @ contextFields requestInfo)"

definition uploadFailed :: "8 word list \<Rightarrow> jsval \<Rightarrow> user \<Rightarrow> jsval \<Rightarrow> error \<Rightarrow> jsval" where
  "uploadFailed fileBuffer metadata userInfo requestInfo error = JObj (userFields userInfo @
     [(''documentName'', getProp metadata ''originalName''),
      (''documentType'', getProp metadata ''documentType''),
      (''fileName'', getProp metadata ''originalName''),
      (''fileSize'', JNum (int (length fileBuffer))),
      (''mimeType'', getProp metadata ''mimeType'')]
     @ contextFields requestInfo
     @ [(''success'', JBool False), (''errorMessage'', JStr (message error))])"

definition uploadDocument ::
  "env \<Rightarrow> 8 word list \<Rightarrow> jsval \<Rightarrow> user \<Rightarrow> jsval \<Rightarrow> jsval io" where
  "uploadDocument env fileBuffer metadata userInfo requestInfo =
     tryCatch
       (if \<not> canUploadDocument userInfo metadata then
          andThen (logAccessDenied env (uploadDenied userInfo requestInfo)) (\<lambda>_.
          throw (Error ''Insufficient permissions to upload document''))
        else
          andThen (storageCall (\<lambda>n. storage_uploadDocument env n fileBuffer metadata userInfo))
            (\<lambda>uploadResult.
          andThen (\<lambda>w. documentsCollection_set env (documentId uploadResult)
                          ((resultMetadata uploadResult)
                             \<lparr>updatedAt := now w, accessCount := 0, lastAccessed := None,
                              sharedWith := Some []\<rparr>) w) (\<lambda>_.
          andThen (logDocumentUpload env (JObj (userFields userInfo @
              [(''documentId'', JStr (documentId uploadResult)),
               (''documentName'', getProp metadata ''originalName''),
               (''documentType'', getProp metadata ''documentType''),
               (''documentEmployeeId'',
                  orElse (getProp metadata ''employeeId'') (optStr (employeeId userInfo))),
               (''fileName'', JStr (fileName (resultMetadata uploadResult))),
               (''fileSize'', JNum (int (length fileBuffer))),
               (''mimeType'', getProp metadata ''mimeType''),
               (''encryptionAlgorithm'', JStr ''aes-256-gcm'')]
              @ contextFields requestInfo @ [(''success'', JBool True)]))) (\<lambda>_.
          (\<lambda>w. ret (JObj
              [(''success'', JBool True),
               (''documentId'', JStr (documentId uploadResult)),
               (''message'', JStr ''Document uploaded successfully''),
               (''metadata'', JObj
                  [(''id'', JStr (documentId uploadResult)),
                   (''name'', getProp metadata ''originalName''),
                   (''type'', getProp metadata ''documentType''),
                   (''size'', JNum (int (length fileBuffer))),
                   (''uploadedAt'', JNum (now w))])]) w)))))
       (\<lambda>error.
        andThen (logDocumentUpload env
                   (uploadFailed fileBuffer metadata userInfo requestInfo error)) (\<lambda>_.
        throw error))"

text \<open>\<open>downloadDocument(documentId, userInfo, requestInfo)\<close>, with the two objects of its
  denial path named in the same way.\<close>

definition downloadDenied :: "string \<Rightarrow> documentMetadata \<Rightarrow> user \<Rightarrow> jsval \<Rightarrow> jsval" where
  "downloadDenied docId documentMetadata userInfo requestInfo = JObj (userFields userInfo @
     [(''resource'', JObj
         [(''type'', JStr ''document''),
          (''id'', JStr docId),
          (''name'', JStr (originalName documentMetadata)),
          (''employeeId'', optStr (docEmployeeId documentMetadata))]),
      (''attemptedAction'', JStr ''download_document''),
      (''reason'', JStr ''access_denied'')]
     @ contextFields requestInfo)"

definition downloadFailed :: "string \<Rightarrow> user \<Rightarrow> jsval \<Rightarrow> error \<Rightarrow> jsval" where
  "downloadFailed docId userInfo requestInfo error = JObj (userFields userInfo @
     [(''documentId'', JStr docId)]
     @ contextFields requestInfo
     @ [(''success'', JBool False), (''errorMessage'', JStr (message error))])"

definition downloadDocument ::
  "env \<Rightarrow> string \<Rightarrow> user \<Rightarrow> jsval \<Rightarrow> (8 word list \<times> jsval) io" where
  "downloadDocument env docId userInfo requestInfo =
     tryCatch
       (andThen (documentsCollection_get env docId) (\<lambda>docSnapshot.
          case docSnapshot of
            None \<Rightarrow> throw (Error ''Document not found'')
          | Some documentMetadata \<Rightarrow>
              if \<not> truthy (canAccessDocument userInfo documentMetadata) then
                andThen (logAccessDenied env
                           (downloadDenied docId documentMetadata userInfo requestInfo)) (\<lambda>_.
                throw (Error ''Access denied''))
              else
                andThen (storageCall (\<lambda>n. storage_downloadDocument env n
                                             (fileName documentMetadata) userInfo)) (\<lambda>data.
                andThen (\<lambda>w. docRef_update env docId
                                (\<lambda>d. d\<lparr>accessCount := Suc (accessCount d),
                                       lastAccessed := Some (now w), updatedAt := now w\<rparr>) w) (\<lambda>_.
                andThen (logDocumentDownload env (JObj (userFields userInfo @
                    [(''documentId'', JStr docId),
                     (''documentName'', JStr (originalName documentMetadata)),
                     (''documentEmployeeId'', optStr (docEmployeeId documentMetadata)),
                     (''downloadSize'', JNum (int (length data))),
                     (''accessMethod'', JStr ''direct'')]
                    @ contextFields requestInfo @ [(''success'', JBool True)]))) (\<lambda>_.
                ret (data, JObj
                    [(''id'', JStr docId),
                     (''originalName'', JStr (originalName documentMetadata)),
                     (''mimeType'', JStr (mimeType documentMetadata)),
                     (''size'', JNum (int (length data))),
                     (''documentType'', JStr (documentType documentMetadata)),
                     (''uploadedAt'', JStr (uploadedAt documentMetadata)),
                     (''lastModified'', JNum (updatedAt documentMetadata))]))))))
       (\<lambda>error.
        andThen (logDocumentDownload env (downloadFailed docId userInfo requestInfo error)) (\<lambda>_.
        throw error))"

text \<open>\<open>deleteDocument(documentId, userInfo, requestInfo)\<close>: the soft delete. The objects it
  gives to the audit helpers are named as above.\<close>

definition deleteDenied :: "string \<Rightarrow> documentMetadata \<Rightarrow> user \<Rightarrow> jsval \<Rightarrow> jsval" where
  "deleteDenied docId documentMetadata userInfo requestInfo = JObj (userFields userInfo @
     [(''resource'', JObj
         [(''type'', JStr ''document''),
          (''id'', JStr docId),
          (''name'', JStr (originalName documentMetadata)),
          (''employeeId'', optStr (docEmployeeId documentMetadata))]),
      (''attemptedAction'', JStr ''delete_document''),
      (''reason'', JStr ''insufficient_permissions''),
      (''requiredRole'', JArr [JStr roles_ADMIN, JStr roles_HR])]
     @ contextFields requestInfo)"

definition deleteDone :: "string \<Rightarrow> documentMetadata \<Rightarrow> user \<Rightarrow> jsval \<Rightarrow> jsval" where
  "deleteDone docId documentMetadata userInfo requestInfo = JObj (userFields userInfo @
     [(''documentId'', JStr docId),
      (''documentName'', JStr (originalName documentMetadata)),
      (''documentEmployeeId'', optStr (docEmployeeId documentMetadata)),
      (''reason'', orElse (getProp requestInfo ''reason'') (JStr ''user_request'')),
      (''permanentDeletion'', JBool True)]
     @ contextFields requestInfo @ [(''success'', JBool True)])"

definition deleteFailed :: "string \<Rightarrow> user \<Rightarrow> jsval \<Rightarrow> error \<Rightarrow> jsval" where
  "deleteFailed docId userInfo requestInfo error = JObj (userFields userInfo @
     [(''documentId'', JStr docId)]
     @ contextFields requestInfo
     @ [(''success'', JBool False), (''errorMessage'', JStr (message error))])"

definition deleteDocument :: "env \<Rightarrow> string \<Rightarrow> user \<Rightarrow> jsval \<Rightarrow> jsval io" where
  "deleteDocument env docId userInfo requestInfo =
     tryCatch
       (andThen (documentsCollection_get env docId) (\<lambda>docSnapshot.
          case docSnapshot of
            None \<Rightarrow> throw (Error ''Document not found'')
          | Some documentMetadata \<Rightarrow>
              if \<not> canDeleteDocument userInfo documentMetadata then
                andThen (logAccessDenied env
                           (deleteDenied docId documentMetadata userInfo requestInfo)) (\<lambda>_.
                throw (Error ''Insufficient permissions to delete document''))
              else
                andThen (storageCall (\<lambda>n. storage_deleteDocument env n
                                             (fileName documentMetadata) userInfo)) (\<lambda>_.
                andThen (\<lambda>w. docRef_update env docId
                                (\<lambda>d. d\<lparr>isActive := False, deletedAt := Some (now w),
                                       deletedBy := Some (uid userInfo), updatedAt := now w\<rparr>) w) (\<lambda>_.
                andThen (logDocumentDelete env
                           (deleteDone docId documentMetadata userInfo requestInfo)) (\<lambda>_.
                ret (JObj
                    [(''success'', JBool True),
                     (''message'', JStr ''Document deleted successfully''),
                     (''documentId'', JStr docId)]))))))
       (\<lambda>error.
        andThen (logDocumentDelete env (deleteFailed docId userInfo requestInfo error)) (\<lambda>_.
        throw error))"

text \<open>
  \<open>listDocuments(userInfo, filters, pagination)\<close>. The query starts from
  \<open>where('isActive', '==', true)\<close>; an employee sees the documents of its own employeeId
  (the store rejects a query on an undefined value); then the optional filters, the order,
  the cursor and the limit. \<open>uploadedAfter\<close> is compared with the stored strings: a value
  of another type matches no row. \<open>orderBy('uploadedAt', 'desc')\<close> orders by the upload
  string and then by the document id, both descending; \<open>startAfter\<close> keeps the rows that
  come strictly after the cursor document in that order. \<open>limit\<close> is a number and
  \<open>startAfter\<close> a document id (the route validates both).
\<close>

definition whereEmployeeId :: "string option \<Rightarrow> string \<times> documentMetadata \<Rightarrow> bool" where
  "whereEmployeeId v row = (docEmployeeId (snd row) = v)"

definition orderKey :: "string \<times> documentMetadata \<Rightarrow> string \<times> string" where
  "orderKey row = (uploadedAt (snd row), fst row)"

definition listQuery ::
  "user \<Rightarrow> jsval \<Rightarrow> int \<Rightarrow> (string \<times> documentMetadata) option
     \<Rightarrow> (string \<times> documentMetadata) list \<Rightarrow> (string \<times> documentMetadata) list" where
  "listQuery userInfo filters limit cursor rows =
     (let q0 = filter (\<lambda>row. isActive (snd row)) rows;
          q1 = (if role userInfo = Some roles_EMPLOYEE
                then filter (whereEmployeeId (employeeId userInfo)) q0 else q0);
          q2 = (if jsTruthy (getProp filters ''documentType'')
                then filter (\<lambda>row. JStr (documentType (snd row)) = getProp filters ''documentType'') q1
                else q1);
          q3 = (if jsTruthy (getProp filters ''employeeId'') \<and> role userInfo \<noteq> Some roles_EMPLOYEE
                then filter (\<lambda>row. optStr (docEmployeeId (snd row)) = getProp filters ''employeeId'') q2
                else q2);
          q4 = (if jsTruthy (getProp filters ''uploadedAfter'')
                then filter (\<lambda>row. case getProp filters ''uploadedAfter'' of
                                      JStr t \<Rightarrow> t \<le> uploadedAt (snd row) | _ \<Rightarrow> False) q3
                else q3);
          q5 = rev (sort_key orderKey q4);
          q6 = (case cursor of
                  None \<Rightarrow> q5
                | Some c \<Rightarrow> filter (\<lambda>row. orderKey row < orderKey c) q5)
      in take (nat limit) q6)"

text \<open>
  The summary of a row, as \<open>snapshot.forEach\<close> pushes it onto \<open>documents\<close>. It calls
  \<open>data.uploadedAt?.toDate()\<close>. The stored \<open>uploadedAt\<close> is a string and a string has no
  method \<open>toDate\<close>, so the call throws a \<open>TypeError\<close>: the first row of a snapshot ends the
  loop, and the listing, with that error. \<open>lastAccessed\<close> is a timestamp of the store or
  \<open>null\<close>. A summary leaves out \<open>tags\<close> and \<open>description\<close>.
\<close>

definition toDate :: "string \<Rightarrow> error + int" where
  "toDate s = Inl (Error ''data.uploadedAt?.toDate is not a function'')"

definition documentSummary :: "string \<times> documentMetadata \<Rightarrow> error + jsval" where
  "documentSummary row =
     (case toDate (uploadedAt (snd row)) of
        Inl error \<Rightarrow> Inl error
      | Inr date \<Rightarrow> Inr (JObj
          [(''id'', JStr (fst row)),
           (''name'', JStr (originalName (snd row))),
           (''type'', JStr (documentType (snd row))),
           (''size'', JNum (int (docSize (snd row)))),
           (''mimeType'', JStr (mimeType (snd row))),
           (''employeeId'', optStr (docEmployeeId (snd row))),
           (''uploadedAt'', JNum date),
           (''lastAccessed'',
              (case lastAccessed (snd row) of None \<Rightarrow> JUndefined | Some t \<Rightarrow> JNum t)),
           (''accessCount'', JNum (int (accessCount (snd row))))]))"

fun pushSummaries ::
  "(string \<times> documentMetadata) list \<Rightarrow> jsval list \<Rightarrow> error + jsval list" where
  "pushSummaries [] documents = Inr documents"
| "pushSummaries (row # rows) documents =
     (case documentSummary row of
        Inl error \<Rightarrow> Inl error
      | Inr summary \<Rightarrow> pushSummaries rows (documents @ [summary]))"

definition listDocuments :: "env \<Rightarrow> user \<Rightarrow> jsval \<Rightarrow> jsval \<Rightarrow> jsval io" where
  "listDocuments env userInfo filters pagination =
     tryCatch
       (if role userInfo = Some roles_EMPLOYEE \<and> employeeId userInfo = None
        then throw (Error ''Cannot use undefined as a Firestore value'')
        else
          (case orElse (getProp pagination ''limit'') (JNum 20) of
             JNum n \<Rightarrow>
               andThen (case getProp pagination ''startAfter'' of
                          JStr cursorId \<Rightarrow>
                            if cursorId = [] then ret None
                            else andThen (documentsCollection_get env cursorId) (\<lambda>snap.
                                   case snap of
                                     None \<Rightarrow> throw (Error ''Cursor document does not exist'')
                                   | Some c \<Rightarrow> ret (Some (cursorId, c)))
                        | _ \<Rightarrow> ret None) (\<lambda>cursor.
               andThen (documentOp env (\<lambda>w.
                   (listQuery userInfo filters (min n 100) cursor (documentsCollection w), w)))
                 (\<lambda>snapshot.
               andThen (\<lambda>w. (pushSummaries snapshot [], w)) (\<lambda>documents.
               ret (JObj
                 [(''documents'', JArr documents),
                  (''pagination'', JObj
                     [(''hasMore'', JBool (int (length documents) = min n 100)),
                      (''lastDocId'',
                         (if documents = [] then JNull else getProp (last documents) ''id''))]),
                  (''total'', JNum (int (length documents)))]))))
           | _ \<Rightarrow> throw (Error ''limit is not a number'')))
       (\<lambda>error.
        andThen (consoleError ''Error listing documents:'' error) (\<lambda>_.
        throw error))"

text \<open>\<open>generateSignedUrl(documentId, userInfo, options)\<close>: no audit record on denial. The
  \<open>expiresAt\<close> of the returned object is left out.\<close>

definition generateSignedUrl :: "env \<Rightarrow> string \<Rightarrow> user \<Rightarrow> jsval \<Rightarrow> jsval io" where
  "generateSignedUrl env docId userInfo options =
     tryCatch
       (andThen (documentsCollection_get env docId) (\<lambda>docSnapshot.
          case docSnapshot of
            None \<Rightarrow> throw (Error ''Document not found'')
          | Some documentMetadata \<Rightarrow>
              if \<not> truthy (canAccessDocument userInfo documentMetadata) then
                throw (Error ''Access denied'')
              else
                andThen (storageCall (\<lambda>n. storage_generateSignedUrl env n
                    (fileName documentMetadata)
                    (JObj [(''action'', orElse (getProp options ''action'') (JStr ''read'')),
                           (''expirationMinutes'',
                              orElse (getProp options ''expirationMinutes'') (JNum 15))])))
                  (\<lambda>signedUrl.
                andThen (logDocumentDownload env (JObj (userFields userInfo @
                    [(''documentId'', JStr docId),
                     (''documentName'', JStr (originalName documentMetadata)),
                     (''documentEmployeeId'', optStr (docEmployeeId documentMetadata)),
                     (''accessMethod'', JStr ''signed-url'')]
                    @ contextFields options @ [(''success'', JBool True)]))) (\<lambda>_.
                ret (JObj
                    [(''signedUrl'', JStr signedUrl),
                     (''documentName'', JStr (originalName documentMetadata)),
                     (''documentType'', JStr (documentType documentMetadata))])))))
       (\<lambda>error.
        andThen (consoleError ''Error generating signed URL:'' error) (\<lambda>_.
        throw error))"

text \<open>\<open>FieldValue.arrayUnion(...shareWith)\<close>: each element not yet present is appended.\<close>

definition arrayUnion :: "string list option \<Rightarrow> string list \<Rightarrow> string list" where
  "arrayUnion old new =
     foldl (\<lambda>acc x. if x \<in> set acc then acc else acc @ [x])
       (case old of None \<Rightarrow> [] | Some xs \<Rightarrow> xs) new"

definition shareDocument :: "env \<Rightarrow> string \<Rightarrow> string list \<Rightarrow> user \<Rightarrow> jsval io" where
  "shareDocument env docId shareWith userInfo =
     tryCatch
       (andThen (documentsCollection_get env docId) (\<lambda>docSnapshot.
          case docSnapshot of
            None \<Rightarrow> throw (Error ''Document not found'')
          | Some documentMetadata \<Rightarrow>
              if \<not> canShareDocument userInfo documentMetadata then
                throw (Error ''Insufficient permissions to share document'')
              else
                andThen (\<lambda>w. docRef_update env docId
                                (\<lambda>d. d\<lparr>sharedWith := Some (arrayUnion (sharedWith d) shareWith),
                                       updatedAt := now w\<rparr>) w) (\<lambda>_.
                ret (JObj
                    [(''success'', JBool True),
                     (''message'', JStr ''Document shared successfully''),
                     (''sharedWith'', JArr (map JStr shareWith))]))))
       (\<lambda>error.
        andThen (consoleError ''Error sharing document:'' error) (\<lambda>_.
        throw error))"

text \<open>
  The operations of the service and of the audit ledger as one request alphabet, and the
  world after a request and after a sequence of requests. (\<open>getDocumentStatistics\<close> reads
  the same query as \<open>listDocuments\<close> and writes nothing.)
\<close>

datatype operation =
    Upload "8 word list" jsval user jsval
  | Download string user jsval
  | Delete string user jsval
  | ListDocs user jsval jsval
  | SignedUrl string user jsval
  | Share string "string list" user
  | LogEvent jsval
  | CleanupLogs request

fun perform :: "env \<Rightarrow> operation \<Rightarrow> world \<Rightarrow> world" where
  "perform env (Upload fileBuffer metadata userInfo requestInfo) w =
     snd (uploadDocument env fileBuffer metadata userInfo requestInfo w)"
| "perform env (Download docId userInfo requestInfo) w =
     snd (downloadDocument env docId userInfo requestInfo w)"
| "perform env (Delete docId userInfo requestInfo) w =
     snd (deleteDocument env docId userInfo requestInfo w)"
| "perform env (ListDocs userInfo filters pagination) w =
     snd (listDocuments env userInfo filters pagination w)"
| "perform env (SignedUrl docId userInfo options) w =
     snd (generateSignedUrl env docId userInfo options w)"
| "perform env (Share docId shareWith userInfo) w =
     snd (shareDocument env docId shareWith userInfo w)"
| "perform env (LogEvent eventData) w = snd (logEvent env eventData w)"
| "perform env (CleanupLogs req) w = snd (cleanupLogsRoute env req w)"

fun performAll :: "env \<Rightarrow> operation list \<Rightarrow> world \<Rightarrow> world" where
  "performAll env [] w = w"
| "performAll env (op # ops) w = performAll env ops (perform env op w)"

section \<open>Vocabulary for the lifecycle properties\<close>

text \<open>
  A document is soft-deleted in a world when it is stored with \<open>isActive = false\<close>;
  \<open>deletedIn\<close> says so of a collection whose keys are distinct. \<open>listedIds\<close> are the ids
  a listing returns. A predicate on worlds is stable under an operation when the operation
  takes worlds that satisfy it to worlds that satisfy it.
\<close>

definition softDeleted :: "string \<Rightarrow> world \<Rightarrow> bool" where
  "softDeleted docId w =
     (case map_of (documentsCollection w) docId of None \<Rightarrow> False | Some d \<Rightarrow> \<not> isActive d)"

definition deletedIn :: "string \<Rightarrow> (string \<times> documentMetadata) list \<Rightarrow> bool" where
  "deletedIn docId rows =
     (distinct (map fst rows)
      \<and> (case map_of rows docId of None \<Rightarrow> False | Some d \<Rightarrow> \<not> isActive d))"

definition listedIds :: "jsval \<Rightarrow> jsval list" where
  "listedIds result =
     (case getProp result ''documents'' of
        JArr summaries \<Rightarrow> map (\<lambda>s. getProp s ''id'') summaries
      | _ \<Rightarrow> [])"

definition stable :: "(world \<Rightarrow> bool) \<Rightarrow> 'a io \<Rightarrow> bool" where
  "stable P m = (\<forall>w. P w \<longrightarrow> P (snd (m w)))"


section \<open>Buffers and their base64 form\<close>

text \<open>
  A \<open>Buffer\<close> is a list of bytes. \<open>buf.toString('base64')\<close> writes three bytes as four
  characters of the alphabet \<open>A-Z a-z 0-9 + /\<close> and pads the last group with \<open>=\<close>.
  \<open>Buffer.from(s, 'base64')\<close> reads up to the first \<open>=\<close>, skips every character outside
  the alphabet (it also accepts the URL-safe \<open>-\<close> and \<open>_\<close>), and turns each group of four
  characters back into three bytes, a last group of three into two and of two into one.
\<close>

type_synonym bytes = "8 word list"

definition b64char :: "nat \<Rightarrow> char" where
  "b64char n =
     (if n < 26 then char_of (65 + n)
      else if n < 52 then char_of (71 + n)
      else if n < 62 then char_of (n - 4)
      else if n = 62 then CHR ''+''
      else CHR ''/'')"

definition b64val :: "char \<Rightarrow> nat option" where
  "b64val c =
     (let k = (of_char c :: nat) in
      if 65 \<le> k \<and> k \<le> 90 then Some (k - 65)
      else if 97 \<le> k \<and> k \<le> 122 then Some (k - 71)
      else if 48 \<le> k \<and> k \<le> 57 then Some (k + 4)
      else if k = 43 \<or> k = 45 then Some 62
      else if k = 47 \<or> k = 95 then Some 63
      else None)"

fun toSextets :: "bytes \<Rightarrow> nat list" where
  "toSextets (a # b # c # rest) =
     [unat a div 4, (unat a mod 4) * 16 + unat b div 16,
      (unat b mod 16) * 4 + unat c div 64, unat c mod 64] @ toSextets rest"
| "toSextets [a, b] =
     [unat a div 4, (unat a mod 4) * 16 + unat b div 16, (unat b mod 16) * 4]"
| "toSextets [a] = [unat a div 4, (unat a mod 4) * 16]"
| "toSextets [] = []"

fun fromSextets :: "nat list \<Rightarrow> bytes" where
  "fromSextets (s1 # s2 # s3 # s4 # rest) =
     [of_nat (s1 * 4 + s2 div 16), of_nat ((s2 mod 16) * 16 + s3 div 4),
      of_nat ((s3 mod 4) * 64 + s4)] @ fromSextets rest"
| "fromSextets [s1, s2, s3] =
     [of_nat (s1 * 4 + s2 div 16), of_nat ((s2 mod 16) * 16 + s3 div 4)]"
| "fromSextets [s1, s2] = [of_nat (s1 * 4 + s2 div 16)]"
| "fromSextets ss = []"

definition toBase64 :: "bytes \<Rightarrow> string" where
  "toBase64 buf =
     map b64char (toSextets buf) @ replicate ((3 - length buf mod 3) mod 3) CHR ''=''"

definition fromBase64 :: "string \<Rightarrow> bytes" where
  "fromBase64 s = fromSextets (List.map_filter b64val (takeWhile (\<lambda>c. c \<noteq> CHR ''='') s))"

section \<open>EncryptionService\<close>

text \<open>
  The service reads two things from outside. The first is the \<open>crypto\<close> module of Node
  (\<open>package.json\<close> asks for Node 18 or later). The module has \<open>randomBytes\<close>,
  \<open>createHash\<close>, \<open>randomUUID\<close>, \<open>createCipheriv\<close> and \<open>createDecipheriv\<close>; it has no
  property \<open>createCipherGCM\<close> and no property \<open>createDecipherGCM\<close>. The two properties
  the service calls are therefore \<open>undefined\<close>, here \<open>None\<close>, and calling them throws a
  \<open>TypeError\<close>. Their type is the one the service expects of them:
  \<open>createCipherGCM algorithm key iv\<close> followed by \<open>update\<close>, \<open>final\<close> and \<open>getAuthTag\<close>
  would take the plaintext to the ciphertext and the tag, and \<open>createDecipherGCM\<close>
  followed by \<open>setAuthTag\<close>, \<open>update\<close> and \<open>final\<close> would take the tag and the
  ciphertext to the plaintext, with \<open>None\<close> for a call that throws.
\<close>

definition crypto_createCipherGCM ::
  "(string \<Rightarrow> bytes \<Rightarrow> bytes \<Rightarrow> bytes \<Rightarrow> (bytes \<times> bytes) option) option" where
  "crypto_createCipherGCM = None"

definition crypto_createDecipherGCM ::
  "(string \<Rightarrow> bytes \<Rightarrow> bytes \<Rightarrow> bytes \<Rightarrow> bytes \<Rightarrow> bytes option) option" where
  "crypto_createDecipherGCM = None"

text \<open>
  The second is the key service behind \<open>this.kmsClient\<close>: \<open>kmsEncrypt name plaintext\<close> and
  \<open>kmsDecrypt name ciphertext\<close>, with \<open>None\<close> for a rejected request.
\<close>

record kmsClient =
  kmsEncrypt :: "string \<Rightarrow> bytes \<Rightarrow> bytes option"
  kmsDecrypt :: "string \<Rightarrow> bytes \<Rightarrow> bytes option"

text \<open>
  The argument of \<open>encryptData\<close>: a buffer or a string. \<open>Buffer.from(string)\<close> is the
  UTF-8 form of the string; a character of a \<open>string\<close> here is a code point below 256,
  one byte below 128 and two bytes from there on.
\<close>

datatype plaintext = Buffer bytes | String string

definition utf8 :: "char \<Rightarrow> bytes" where
  "utf8 c =
     (let k = (of_char c :: nat) in
      if k < 128 then [of_nat k] else [of_nat (192 + k div 64), of_nat (128 + k mod 64)])"

definition bufferFrom :: "string \<Rightarrow> bytes" where
  "bufferFrom s = concat (map utf8 s)"

fun toBuffer :: "plaintext \<Rightarrow> bytes" where
  "toBuffer (Buffer b) = b"
| "toBuffer (String s) = bufferFrom s"

record envelope =
  encryptedData :: string
  encryptedDEK :: string
  iv :: string
  authTag :: string
  algorithm :: string
  kmsKeyId :: string

text \<open>
  \<open>encryptData(data)\<close>. \<open>keyId\<close> is \<open>this.keyId\<close>; \<open>dek\<close> and \<open>ivBytes\<close> are the 32 and 16
  bytes drawn by \<open>crypto.randomBytes\<close>. Whatever throws inside the \<open>try\<close>, the call of the
  undefined \<open>crypto.createCipherGCM\<close> included, is replaced by \<open>Error('Encryption failed')\<close>.
\<close>

definition encryptData ::
  "kmsClient \<Rightarrow> string \<Rightarrow> bytes \<Rightarrow> bytes \<Rightarrow> plaintext \<Rightarrow> error + envelope" where
  "encryptData kms keyId dek ivBytes data =
     (let plaintext = toBuffer data in
      case crypto_createCipherGCM of
        None \<Rightarrow> Inl (Error ''Encryption failed'')
      | Some createCipherGCM \<Rightarrow>
          (case createCipherGCM ''aes-256-gcm'' dek ivBytes plaintext of
             None \<Rightarrow> Inl (Error ''Encryption failed'')
           | Some (ciphertext, tag) \<Rightarrow>
               (case kmsEncrypt kms keyId dek of
                  None \<Rightarrow> Inl (Error ''Encryption failed'')
                | Some wrapped \<Rightarrow>
                    Inr \<lparr>encryptedData = toBase64 ciphertext,
                         encryptedDEK = toBase64 wrapped,
                         iv = toBase64 ivBytes,
                         authTag = toBase64 tag,
                         algorithm = ''aes-256-gcm'',
                         kmsKeyId = keyId\<rparr>)))"

text \<open>
  \<open>decryptData(encryptedPayload)\<close>: the key service unwraps the data key, then the service
  calls \<open>crypto.createDecipherGCM\<close>; whatever throws is replaced by
  \<open>Error('Decryption failed')\<close>.
\<close>

definition decryptData :: "kmsClient \<Rightarrow> string \<Rightarrow> envelope \<Rightarrow> error + bytes" where
  "decryptData kms keyId encryptedPayload =
     (case kmsDecrypt kms keyId (fromBase64 (encryptedDEK encryptedPayload)) of
        None \<Rightarrow> Inl (Error ''Decryption failed'')
      | Some dek \<Rightarrow>
          (case crypto_createDecipherGCM of
             None \<Rightarrow> Inl (Error ''Decryption failed'')
           | Some createDecipherGCM \<Rightarrow>
               (case createDecipherGCM (algorithm encryptedPayload) dek
                       (fromBase64 (iv encryptedPayload))
                       (fromBase64 (authTag encryptedPayload))
                       (fromBase64 (encryptedData encryptedPayload)) of
                  None \<Rightarrow> Inl (Error ''Decryption failed'')
                | Some decryptedData \<Rightarrow> Inr decryptedData)))"

text \<open>\<open>decryptData(await encryptData(data))\<close>: a rejected \<open>encryptData\<close> rejects the whole.\<close>

definition decryptEncrypted ::
  "kmsClient \<Rightarrow> string \<Rightarrow> bytes \<Rightarrow> bytes \<Rightarrow> plaintext \<Rightarrow> error + bytes" where
  "decryptEncrypted kms keyId dek ivBytes data =
     (case encryptData kms keyId dek ivBytes data of
        Inl error \<Rightarrow> Inl error
      | Inr encryptedPayload \<Rightarrow> decryptData kms keyId encryptedPayload)"

section \<open>Example principals and documents\<close>

definition adminUser :: user where
  "adminUser = \<lparr>uid = ''uid-admin'', email = ''root@corp.example'',
     role = Some ''admin'', employeeId = None\<rparr>"

definition hrUser :: user where
  "hrUser = \<lparr>uid = ''uid-hr'', email = ''hr@corp.example'',
     role = Some ''hr'', employeeId = Some ''E0''\<rparr>"

definition employeeE1 :: user where
  "employeeE1 = \<lparr>uid = ''uid-e1'', email = ''e1@corp.example'',
     role = Some ''employee'', employeeId = Some ''E1''\<rparr>"

definition employeeE2 :: user where
  "employeeE2 = \<lparr>uid = ''uid-e2'', email = ''e2@corp.example'',
     role = Some ''employee'', employeeId = Some ''E2''\<rparr>"

definition auditorUser :: user where
  "auditorUser = \<lparr>uid = ''uid-x'', email = ''x@corp.example'',
     role = Some ''auditor'', employeeId = None\<rparr>"

definition slipE1 :: documentMetadata where
  "slipE1 = \<lparr>originalName = ''slip.pdf'', fileName = ''f-1.pdf'', mimeType = ''application/pdf'',
     docSize = 10, documentType = ''salary_slip'', docEmployeeId = Some ''E1'',
     ownerId = Some ''uid-hr'', uploadedAt = ''2024-03-01T09:30:00.000Z'', version = 1,
     isActive = True, accessCount = 0, lastAccessed = None, sharedWith = Some [], deletedAt = None,
     deletedBy = None, updatedAt = 1000\<rparr>"

text \<open>The same document after \<open>uid-e1\<close> became its owner, and after it was shared.\<close>

definition slipOwnedByE1 :: documentMetadata where
  "slipOwnedByE1 = slipE1\<lparr>ownerId := Some ''uid-e1''\<rparr>"

definition slipSharedWithAdmin :: documentMetadata where
  "slipSharedWithAdmin = slipE1\<lparr>sharedWith := Some [''uid-admin'']\<rparr>"

definition slipSharedWithE2 :: documentMetadata where
  "slipSharedWithE2 = slipE1\<lparr>sharedWith := Some [''uid-e2'']\<rparr>"

text \<open>
  An environment in which both stores work and the storage service is offline, the same
  with the audit store down, and a world holding one document and two audit records, one
  written at time 0 and one 400 days later; the clock stands at day 401.
\<close>

definition env0 :: env where
  "env0 = \<lparr>uuidv4 = (\<lambda>n. ''log-'' @ replicate n CHR ''x''),
     auditStoreFails = (\<lambda>n. False), documentStoreFails = (\<lambda>n. False),
     storage_uploadDocument = (\<lambda>n buf m u. Inl (Error ''storage offline'')),
     storage_downloadDocument = (\<lambda>n f u. Inl (Error ''storage offline'')),
     storage_deleteDocument = (\<lambda>n f u. Inl (Error ''storage offline'')),
     storage_generateSignedUrl = (\<lambda>n f opts. Inl (Error ''storage offline'')),
     npm_package_version = None, nodeEnv = ''test''\<rparr>"

text \<open>The same environment with a storage service that works; every upload gets the id
  \<open>doc-2\<close>.\<close>

definition envStorageOk :: env where
  "envStorageOk = env0\<lparr>storage_deleteDocument := (\<lambda>n f u. Inr ()),
     storage_downloadDocument := (\<lambda>n f u. Inr [1, 2, 3]),
     storage_uploadDocument := (\<lambda>n buf m u.
        Inr \<lparr>documentId = ''doc-2'', resultMetadata = slipE1\<lparr>fileName := ''f-2.pdf''\<rparr>\<rparr>)\<rparr>"

definition envAuditDown :: env where
  "envAuditDown = env0\<lparr>auditStoreFails := (\<lambda>n. True)\<rparr>"

definition oldEvent :: jsval where
  "oldEvent = JObj [(''id'', JStr ''a1''), (''eventType'', JStr ''user_login''),
     (''timestamp'', JNum 0)]"

definition recentEvent :: jsval where
  "recentEvent = JObj [(''id'', JStr ''a2''), (''eventType'', JStr ''user_login''),
     (''timestamp'', JNum (400 * 86400000))]"

definition world0 :: world where
  "world0 = \<lparr>documentsCollection = [(''doc-1'', slipE1)],
     auditCollection = [(''a1'', oldEvent), (''a2'', recentEvent)],
     console = [], now = 401 * 86400000,
     uuidCalls = 0, auditOps = 0, documentOps = 0, storageCalls = 0\<rparr>"

definition cleanupRequest30 :: request where
  "cleanupRequest30 = \<lparr>reqUser = adminUser, bodyRetentionDays = Some 30,
     requestContext = JObj [(''ipAddress'', JStr ''10.0.0.1'')]\<rparr>"

definition uploadRequest :: jsval where
  "uploadRequest = JObj [(''originalName'', JStr ''slip.pdf''),
     (''documentType'', JStr ''salary_slip''), (''mimeType'', JStr ''application/pdf''),
     (''employeeId'', JStr ''E1'')]"

definition clientContext :: jsval where
  "clientContext = JObj [(''ipAddress'', JStr ''10.0.0.7''), (''userAgent'', JStr ''curl'')]"

text \<open>The salary slip after the HR user has soft-deleted it at the time of \<open>world0\<close>.\<close>

definition slipDeleted :: documentMetadata where
  "slipDeleted = slipE1\<lparr>isActive := False, deletedAt := Some (401 * 86400000),
     deletedBy := Some ''uid-hr'', updatedAt := 401 * 86400000\<rparr>"

text \<open>
  A stand-in for the key service, for running the encryption service: it reverses the key,
  under one key name only; and a key service that rejects every request. With them a data
  key, a nonce, and an envelope of the shape \<open>encryptData\<close> returns: two bytes of
  ciphertext, the wrapped data key, the nonce and a one-byte tag.
\<close>

definition toyKeyId :: string where
  "toyKeyId = ''projects/p/locations/global/keyRings/r/cryptoKeys/k''"

definition toyKms :: kmsClient where
  "toyKms = \<lparr>
     kmsEncrypt = (\<lambda>name key. if name = toyKeyId then Some (rev key) else None),
     kmsDecrypt = (\<lambda>name wrapped. if name = toyKeyId then Some (rev wrapped) else None)\<rparr>"


definition toyDek :: bytes where
  "toyDek = replicate 32 7"

definition toyIv :: bytes where
  "toyIv = replicate 16 9"


section \<open>Access control: theorems\<close>

lemma hasRole_admin_hr:
  "hasRole (Some u) (Roles [roles_ADMIN, roles_HR]) \<longleftrightarrow>
     role u = Some roles_ADMIN \<or> role u = Some roles_HR"
  by (auto simp: roles_ADMIN_def roles_HR_def split: option.splits)

lemma hasRole_hr_admin:
  "hasRole (Some u) (Roles [roles_HR, roles_ADMIN]) \<longleftrightarrow>
     role u = Some roles_ADMIN \<or> role u = Some roles_HR"
  by (auto simp: roles_ADMIN_def roles_HR_def split: option.splits)

declare hasRole.simps(2) [simp del]

lemma canAccessDocument_firebase:
  "firebase_canAccessDocument (Some u) (Some d) \<Longrightarrow> canAccessDocument u d = Some True"
  unfolding canAccessDocument_def by (rule if_P)

lemma canAccessDocument_not_firebase:
  "\<not> firebase_canAccessDocument (Some u) (Some d) \<Longrightarrow>
   canAccessDocument u d = (case sharedWith d of None \<Rightarrow> None | Some sw \<Rightarrow> Some (uid u \<in> set sw))"
  unfolding canAccessDocument_def by (rule if_not_P)

lemma canAccessDocument_shared:
  "sharedWith d = Some sw \<Longrightarrow> uid u \<in> set sw \<Longrightarrow> canAccessDocument u d = Some True"
  by (cases "firebase_canAccessDocument (Some u) (Some d)")
     (simp_all add: canAccessDocument_firebase canAccessDocument_not_firebase
        del: firebase_canAccessDocument.simps)

text \<open>
  C3. A principal whose role is admin is allowed every action the service decides
  (upload, access, delete, share) on every document; an employee whose employeeId differs
  from the document's, who is not its owner and whose uid is not in its sharing list is
  denied access.
\<close>

theorem C3_admin_allowed_foreign_employee_denied:
  "(role a = Some roles_ADMIN \<longrightarrow>
      canUploadDocument a m \<and> firebase_canAccessDocument (Some a) (Some d)
      \<and> truthy (canAccessDocument a d) \<and> canDeleteDocument a d \<and> canShareDocument a d)
   \<and> (role e = Some roles_EMPLOYEE \<and> docEmployeeId d \<noteq> employeeId e
        \<and> ownerId d \<noteq> Some (uid e) \<and> (\<forall>sw. sharedWith d = Some sw \<longrightarrow> uid e \<notin> set sw) \<longrightarrow>
      \<not> firebase_canAccessDocument (Some e) (Some d) \<and> \<not> truthy (canAccessDocument e d))"
proof (intro conjI impI)
  assume adm: "role a = Some roles_ADMIN"
  then show "canUploadDocument a m" by (simp add: canUploadDocument_def hasRole_hr_admin)
  from adm show fb: "firebase_canAccessDocument (Some a) (Some d)" by simp
  show "truthy (canAccessDocument a d)" by (simp add: truthy_def canAccessDocument_firebase [OF fb])
  from adm show "canDeleteDocument a d" by (simp add: canDeleteDocument_def hasRole_admin_hr)
  from adm show "canShareDocument a d" by (simp add: canShareDocument_def hasRole_admin_hr)
next
  assume emp: "role e = Some roles_EMPLOYEE \<and> docEmployeeId d \<noteq> employeeId e
        \<and> ownerId d \<noteq> Some (uid e) \<and> (\<forall>sw. sharedWith d = Some sw \<longrightarrow> uid e \<notin> set sw)"
  then show nfb: "\<not> firebase_canAccessDocument (Some e) (Some d)"
    by (simp add: roles_ADMIN_def roles_HR_def roles_EMPLOYEE_def)
  with emp canAccessDocument_not_firebase [OF nfb] show "\<not> truthy (canAccessDocument e d)"
    by (auto simp: truthy_def split: option.splits)
qed

theorem C3_witness:
  "role adminUser = Some roles_ADMIN \<and> canDeleteDocument adminUser slipE1
   \<and> truthy (canAccessDocument adminUser slipE1)
   \<and> role employeeE2 = Some roles_EMPLOYEE \<and> docEmployeeId slipE1 \<noteq> employeeId employeeE2
   \<and> ownerId slipE1 \<noteq> Some (uid employeeE2)
   \<and> sharedWith slipE1 = Some []
   \<and> \<not> truthy (canAccessDocument employeeE2 slipE1)"
  using C3_admin_allowed_foreign_employee_denied
    [of adminUser "()" slipE1 employeeE2]
  by (simp add: adminUser_def employeeE2_def slipE1_def roles_ADMIN_def roles_EMPLOYEE_def)

text \<open>
  C4 as stated fails on the code: deletion is decided by role alone. An employee who owns a
  document may not delete it, and an admin who is in the sharing list (and is not the owner)
  may.
\<close>

theorem C4_counterexample:
  "ownerId slipOwnedByE1 = Some (uid employeeE1)
   \<and> \<not> canDeleteDocument employeeE1 slipOwnedByE1
   \<and> sharedWith slipSharedWithAdmin = Some [uid adminUser]
   \<and> ownerId slipSharedWithAdmin \<noteq> Some (uid adminUser)
   \<and> canDeleteDocument adminUser slipSharedWithAdmin"
  by (simp add: slipOwnedByE1_def slipSharedWithAdmin_def slipE1_def employeeE1_def
      adminUser_def canDeleteDocument_def hasRole.simps(2) roles_ADMIN_def roles_HR_def)

text \<open>
  C4, amended. The owner of a document may share it, and may read it when its role is admin,
  hr or employee. Deletion is allowed exactly to admin and hr principals, owner or not.
  Every principal whose uid is in the sharing list may read; a shared principal who is not
  the owner and whose role is neither admin nor hr may neither delete nor share.
\<close>

theorem C4_owner_and_shared_permissions:
  "(ownerId d = Some (uid p) \<longrightarrow>
      canShareDocument p d
      \<and> (role p \<in> {Some roles_ADMIN, Some roles_HR, Some roles_EMPLOYEE} \<longrightarrow>
           truthy (canAccessDocument p d)))
   \<and> (canDeleteDocument p d \<longleftrightarrow> role p = Some roles_ADMIN \<or> role p = Some roles_HR)
   \<and> (sharedWith d = Some sw \<and> uid p \<in> set sw \<longrightarrow> truthy (canAccessDocument p d))
   \<and> (sharedWith d = Some sw \<and> uid p \<in> set sw \<and> ownerId d \<noteq> Some (uid p)
        \<and> role p \<noteq> Some roles_ADMIN \<and> role p \<noteq> Some roles_HR \<longrightarrow>
      \<not> canDeleteDocument p d \<and> \<not> canShareDocument p d)"
proof (intro conjI impI)
  assume own: "ownerId d = Some (uid p)"
  then show "canShareDocument p d" by (simp add: canShareDocument_def)
  assume "role p \<in> {Some roles_ADMIN, Some roles_HR, Some roles_EMPLOYEE}"
  with own have "firebase_canAccessDocument (Some p) (Some d)" by auto
  then show "truthy (canAccessDocument p d)" by (simp add: canAccessDocument_firebase truthy_def)
next
  show "canDeleteDocument p d \<longleftrightarrow> role p = Some roles_ADMIN \<or> role p = Some roles_HR"
    by (simp add: canDeleteDocument_def hasRole_admin_hr)
next
  assume "sharedWith d = Some sw \<and> uid p \<in> set sw"
  then show "truthy (canAccessDocument p d)" by (simp add: canAccessDocument_shared truthy_def)
next
  assume sh: "sharedWith d = Some sw \<and> uid p \<in> set sw \<and> ownerId d \<noteq> Some (uid p)
        \<and> role p \<noteq> Some roles_ADMIN \<and> role p \<noteq> Some roles_HR"
  then show "\<not> canDeleteDocument p d" by (simp add: canDeleteDocument_def hasRole_admin_hr)
  from sh show "\<not> canShareDocument p d" by (simp add: canShareDocument_def hasRole_admin_hr)
qed

theorem C4_witness:
  "ownerId slipOwnedByE1 = Some (uid employeeE1) \<and> canShareDocument employeeE1 slipOwnedByE1
   \<and> role employeeE1 = Some roles_EMPLOYEE \<and> truthy (canAccessDocument employeeE1 slipOwnedByE1)
   \<and> \<not> canDeleteDocument employeeE1 slipOwnedByE1
   \<and> sharedWith slipOwnedByE1 = Some [] \<and> uid employeeE1 \<notin> set []"
  using C4_owner_and_shared_permissions [of slipOwnedByE1 employeeE1 "[]"]
  by (simp add: slipOwnedByE1_def slipE1_def employeeE1_def roles_EMPLOYEE_def roles_ADMIN_def
      roles_HR_def)

text \<open>
  C10. \<open>hasRole\<close> and \<open>FirebaseService.canAccessDocument\<close> are defined on every input
  and deny by default. \<open>hasRole\<close> is false when the user is absent, when the role is absent
  or empty, and when the role is not among the required roles; the required roles are those
  of the configuration, admin, hr and employee, at every call, so it is false for every
  role that is not one of the three. \<open>canAccessDocument\<close> is false when the user or the
  document is absent and when the role is not admin, hr or employee. Neither function
  throws: both are total functions into the booleans.
\<close>

theorem C10_deny_by_default:
  "\<not> hasRole None rr
   \<and> (role u = None \<or> role u = Some [] \<longrightarrow> \<not> hasRole (Some u) rr)
   \<and> (role u \<notin> Some ` set (rolesArray rr) \<longrightarrow> \<not> hasRole (Some u) rr)
   \<and> (set (rolesArray rr) \<subseteq> {roles_ADMIN, roles_HR, roles_EMPLOYEE}
        \<and> role u \<notin> {Some roles_ADMIN, Some roles_HR, Some roles_EMPLOYEE} \<longrightarrow>
      \<not> hasRole (Some u) rr)
   \<and> \<not> firebase_canAccessDocument None document
   \<and> \<not> firebase_canAccessDocument user None
   \<and> (role u \<notin> {Some roles_ADMIN, Some roles_HR, Some roles_EMPLOYEE} \<longrightarrow>
      \<not> firebase_canAccessDocument (Some u) document)"
proof (intro conjI impI)
  show "\<not> hasRole None rr" by simp
  show "\<not> firebase_canAccessDocument None document" by simp
  show "\<not> firebase_canAccessDocument user None" by (cases user) simp_all
next
  assume "role u = None \<or> role u = Some []"
  then show "\<not> hasRole (Some u) rr" by (auto simp: hasRole.simps(2))
next
  assume "role u \<notin> Some ` set (rolesArray rr)"
  then show "\<not> hasRole (Some u) rr"
    by (auto simp: hasRole.simps(2) split: option.splits)
next
  assume "set (rolesArray rr) \<subseteq> {roles_ADMIN, roles_HR, roles_EMPLOYEE}
        \<and> role u \<notin> {Some roles_ADMIN, Some roles_HR, Some roles_EMPLOYEE}"
  then show "\<not> hasRole (Some u) rr"
    by (auto simp: hasRole.simps(2) split: option.splits)
next
  assume "role u \<notin> {Some roles_ADMIN, Some roles_HR, Some roles_EMPLOYEE}"
  then show "\<not> firebase_canAccessDocument (Some u) document"
    by (cases document) simp_all
qed

theorem C10_witness:
  "role auditorUser \<noteq> Some roles_ADMIN \<and> role auditorUser \<noteq> Some roles_HR
   \<and> role auditorUser \<noteq> Some roles_EMPLOYEE
   \<and> \<not> hasRole (Some auditorUser) (Roles [roles_HR, roles_ADMIN])
   \<and> \<not> firebase_canAccessDocument (Some auditorUser) (Some slipE1)
   \<and> \<not> firebase_canAccessDocument (Some auditorUser) None
   \<and> \<not> hasRole None (Role roles_ADMIN)"
  using C10_deny_by_default
    [of "Roles [roles_HR, roles_ADMIN]" auditorUser "Some slipE1" "Some auditorUser"]
    C10_deny_by_default [of "Role roles_ADMIN" auditorUser None "Some auditorUser"]
  by (simp add: auditorUser_def roles_ADMIN_def roles_HR_def roles_EMPLOYEE_def)

section \<open>Audit ledger: theorems\<close>

lemma logEvent_run:
  "logEvent env eventData w =
     (let auditLogId = uuidv4 env (uuidCalls w);
          w1 = w\<lparr>uuidCalls := Suc (uuidCalls w), auditOps := Suc (auditOps w)\<rparr>
      in if auditStoreFails env (auditOps w)
         then (Inr JNull,
               w1\<lparr>console := console w @
                  [ConsoleError ''Error logging audit event:'' (Error ''audit store unavailable'')]\<rparr>)
         else (Inr (JStr auditLogId),
               w1\<lparr>auditCollection :=
                     AList.update auditLogId (buildAuditLog env auditLogId (now w) eventData)
                       (auditCollection w),
                   console :=
                     (if isCriticalEvent (getProp eventData ''eventType'')
                      then console w @
                        [ConsoleLog (''AUDIT: '' @ (case getProp eventData ''eventType'' of
                                                    JStr t \<Rightarrow> t | _ \<Rightarrow> []))
                          (JObj [(''userId'', getProp eventData ''userId''),
                               (''resource'', getProp eventData ''resource''),
                               (''success'', getProp eventData ''success''),
                               (''timestamp'', JNum (now w))])]
                      else console w)\<rparr>))"
  by (simp add: logEvent_def tryCatch_def andThen_def nextUuid_def auditCollection_set_def
      auditOp_def consoleLog_def consoleError_def ret_def Let_def)

lemma logEvent_result:
  "fst (logEvent env eventData w) =
     Inr (if auditStoreFails env (auditOps w) then JNull else JStr (uuidv4 env (uuidCalls w)))"
  by (simp add: logEvent_run Let_def)

lemma logEvent_auditCollection:
  "auditCollection (snd (logEvent env eventData w)) =
     (if auditStoreFails env (auditOps w) then auditCollection w
      else AList.update (uuidv4 env (uuidCalls w))
             (buildAuditLog env (uuidv4 env (uuidCalls w)) (now w) eventData) (auditCollection w))"
  by (simp add: logEvent_run Let_def)

lemma logEvent_frame:
  "documentsCollection (snd (logEvent env eventData w)) = documentsCollection w"
  "now (snd (logEvent env eventData w)) = now w"
  "uuidCalls (snd (logEvent env eventData w)) = Suc (uuidCalls w)"
  "auditOps (snd (logEvent env eventData w)) = Suc (auditOps w)"
  "documentOps (snd (logEvent env eventData w)) = documentOps w"
  "storageCalls (snd (logEvent env eventData w)) = storageCalls w"
  by (simp_all add: logEvent_run Let_def)

lemma logEvent_console_failure:
  "auditStoreFails env (auditOps w) \<Longrightarrow>
   console (snd (logEvent env eventData w)) =
     console w @ [ConsoleError ''Error logging audit event:'' (Error ''audit store unavailable'')]"
  by (simp add: logEvent_run Let_def)

text \<open>
  C7. \<open>logEvent\<close> (and each of the typed logging helpers built on it) never throws,
  whatever the audit store does. When the store accepts the write, it returns the id of the
  new record, which is then stored under that id; when the store rejects it, the failure is
  written to the console, nothing is stored, and \<open>null\<close> is returned.
\<close>

theorem C7_logEvent_never_throws:
  "(\<forall>e. fst (logEvent env eventData w) \<noteq> Inl e)
   \<and> (\<forall>e. fst (logAccessDenied env data w) \<noteq> Inl e)
   \<and> (\<forall>e. fst (logDocumentUpload env data w) \<noteq> Inl e)
   \<and> (\<forall>e. fst (logDocumentDownload env data w) \<noteq> Inl e)
   \<and> (\<forall>e. fst (logDocumentDelete env data w) \<noteq> Inl e)
   \<and> (if auditStoreFails env (auditOps w)
       then fst (logEvent env eventData w) = Inr JNull
            \<and> auditCollection (snd (logEvent env eventData w)) = auditCollection w
            \<and> documentsCollection (snd (logEvent env eventData w)) = documentsCollection w
            \<and> console (snd (logEvent env eventData w)) =
                console w @ [ConsoleError ''Error logging audit event:''
                               (Error ''audit store unavailable'')]
       else fst (logEvent env eventData w) = Inr (JStr (uuidv4 env (uuidCalls w)))
            \<and> map_of (auditCollection (snd (logEvent env eventData w))) (uuidv4 env (uuidCalls w))
                = Some (buildAuditLog env (uuidv4 env (uuidCalls w)) (now w) eventData)
            \<and> documentsCollection (snd (logEvent env eventData w)) = documentsCollection w)"
  by (simp add: logEvent_result logEvent_auditCollection logEvent_frame logEvent_console_failure
      logAccessDenied_def logDocumentUpload_def logDocumentDownload_def logDocumentDelete_def
      update_conv')

lemma cleanupOldLogs_run:
  "cleanupOldLogs env rd w =
     (let cutoff = now w - (case rd of None \<Rightarrow> 2555 | Some d \<Rightarrow> d) * msPerDay;
          snapshot = take 500 (filter (olderThan cutoff) (auditCollection w));
          unavailable = Error ''audit store unavailable''
      in if auditStoreFails env (auditOps w)
         then (Inl unavailable,
               w\<lparr>auditOps := Suc (auditOps w),
                 console := console w @ [ConsoleError ''Error cleaning up old logs:'' unavailable]\<rparr>)
         else if snapshot = [] then (Inr 0, w\<lparr>auditOps := Suc (auditOps w)\<rparr>)
         else if auditStoreFails env (Suc (auditOps w))
         then (Inl unavailable,
               w\<lparr>auditOps := Suc (Suc (auditOps w)),
                 console := console w @ [ConsoleError ''Error cleaning up old logs:'' unavailable]\<rparr>)
         else (Inr (length snapshot),
               w\<lparr>auditOps := Suc (Suc (auditOps w)),
                 auditCollection :=
                   filter (\<lambda>doc. fst doc \<notin> set (map fst snapshot)) (auditCollection w),
                 console := console w @
                   [ConsoleLog ''Deleted old audit logs'' (JNum (int (length snapshot)))]\<rparr>))"
  by (simp add: cleanupOldLogs_def tryCatch_def andThen_def auditOp_def consoleLog_def
      consoleError_def ret_def throw_def Let_def)

text \<open>Deleting by key the records of a selection removes exactly that selection, when keys
  are distinct.\<close>

lemma keyed_member:
  assumes "distinct (map fst xs)" "set sel \<subseteq> set xs" "d \<in> set xs" "fst d \<in> fst ` set sel"
  shows "d \<in> set sel"
proof -
  from assms(4) obtain d' where d': "d' \<in> set sel" "fst d' = fst d" by auto
  with assms(2) have "d' \<in> set xs" by auto
  with assms(1,3) d'(2) have "d' = d"
    by (metis eq_key_imp_eq_value prod.collapse)
  with d'(1) show ?thesis by simp
qed

lemma filter_keys_selection:
  assumes "distinct (map fst xs)" "set sel \<subseteq> set xs"
  shows "filter (\<lambda>d. fst d \<in> set (map fst sel)) xs = filter (\<lambda>d. d \<in> set sel) xs"
  by (rule filter_cong [OF refl]) (use assms keyed_member [OF assms] in force)

lemma length_deleted:
  assumes "distinct (map fst xs)" "distinct sel" "set sel \<subseteq> set xs"
  shows "length xs - length (filter (\<lambda>d. fst d \<notin> set (map fst sel)) xs) = length sel"
proof -
  from assms(1) have dx: "distinct xs" by (simp add: distinct_map)
  have "length (filter (\<lambda>d. fst d \<in> set (map fst sel)) xs) = length (filter (\<lambda>d. d \<in> set sel) xs)"
    by (simp only: filter_keys_selection [OF assms(1,3)])
  also have "\<dots> = card (set (filter (\<lambda>d. d \<in> set sel) xs))"
    using dx by (simp only: distinct_card [OF distinct_filter])
  also have "set (filter (\<lambda>d. d \<in> set sel) xs) = set sel" using assms(3) by auto
  also have "card (set sel) = length sel" using assms(2) by (rule distinct_card)
  finally have "length (filter (\<lambda>d. fst d \<in> set (map fst sel)) xs) = length sel" .
  moreover have "length (filter (\<lambda>d. fst d \<in> set (map fst sel)) xs)
      + length (filter (\<lambda>d. \<not> fst d \<in> set (map fst sel)) xs) = length xs"
    by (rule sum_length_filter_compl)
  ultimately show ?thesis by simp
qed

lemma cleanup_selection:
  assumes "distinct (map fst xs)" and sel_def: "sel = take 500 (filter (olderThan cutoff) xs)"
  shows "distinct sel" "set sel \<subseteq> set xs" "length sel \<le> 500"
    "\<forall>d \<in> set sel. olderThan cutoff d"
proof -
  from assms(1) have "distinct xs" by (simp add: distinct_map)
  then show "distinct sel" by (simp add: sel_def)
  have "set sel \<subseteq> set (filter (olderThan cutoff) xs)" unfolding sel_def by (rule set_take_subset)
  then show "set sel \<subseteq> set xs" "\<forall>d \<in> set sel. olderThan cutoff d" by auto
  show "length sel \<le> 500" by (simp add: sel_def)
qed

lemma olderThan_iff:
  "olderThan cutoff doc \<longleftrightarrow> (\<exists>t. getProp (snd doc) ''timestamp'' = JNum t \<and> t < cutoff)"
  by (auto simp: olderThan_def split: jsval.splits)

text \<open>What one run of \<open>cleanupOldLogs\<close> does to the audit collection.\<close>

lemma cleanupOldLogs_effect:
  assumes dist: "distinct (map fst (auditCollection w))"
    and run: "cleanupOldLogs env rd w = (r, w')"
  defines "cutoff \<equiv> now w - (case rd of None \<Rightarrow> 2555 | Some d \<Rightarrow> d) * msPerDay"
  shows "set (auditCollection w') \<subseteq> set (auditCollection w)"
    and "\<forall>doc \<in> set (auditCollection w) - set (auditCollection w'). olderThan cutoff doc"
    and "length (auditCollection w) - length (auditCollection w') \<le> 500"
    and "\<forall>n. r = Inr n \<longrightarrow> n = length (auditCollection w) - length (auditCollection w')"
    and "\<forall>e. r = Inl e \<longrightarrow> auditCollection w' = auditCollection w"
proof -
  define sel where "sel = take 500 (filter (olderThan cutoff) (auditCollection w))"
  note sel = cleanup_selection [OF dist sel_def]
  note len = length_deleted [OF dist sel(1,2)]
  consider (same) "auditCollection w' = auditCollection w" "\<forall>n. r = Inr n \<longrightarrow> n = 0"
    | (del) "auditCollection w' = filter (\<lambda>doc. fst doc \<notin> set (map fst sel)) (auditCollection w)"
        "r = Inr (length sel)"
    using run unfolding cleanupOldLogs_run Let_def cutoff_def [symmetric] sel_def [symmetric]
    by (auto split: if_splits)
  then have all: "set (auditCollection w') \<subseteq> set (auditCollection w)
    \<and> (\<forall>doc \<in> set (auditCollection w) - set (auditCollection w'). olderThan cutoff doc)
    \<and> length (auditCollection w) - length (auditCollection w') \<le> 500
    \<and> (\<forall>n. r = Inr n \<longrightarrow> n = length (auditCollection w) - length (auditCollection w'))
    \<and> (\<forall>e. r = Inl e \<longrightarrow> auditCollection w' = auditCollection w)"
  proof cases
    case same
    then show ?thesis by simp
  next
    case del
    have "\<forall>doc \<in> set (auditCollection w) - set (auditCollection w'). olderThan cutoff doc"
    proof
      fix doc assume "doc \<in> set (auditCollection w) - set (auditCollection w')"
      then have "doc \<in> set (auditCollection w)" "fst doc \<in> fst ` set sel"
        by (auto simp: del(1))
      then have "doc \<in> set sel" using keyed_member [OF dist sel(2)] by blast
      with sel(4) show "olderThan cutoff doc" by blast
    qed
    moreover have "length (auditCollection w) - length (auditCollection w') = length sel"
      unfolding del(1) by (rule len)
    ultimately show ?thesis using sel(3) del by auto
  qed
  from all show "set (auditCollection w') \<subseteq> set (auditCollection w)" by blast
  from all show "\<forall>doc \<in> set (auditCollection w) - set (auditCollection w'). olderThan cutoff doc" by blast
  from all show "length (auditCollection w) - length (auditCollection w') \<le> 500" by blast
  from all show "\<forall>n. r = Inr n \<longrightarrow> n = length (auditCollection w) - length (auditCollection w')" by blast
  from all show "\<forall>e. r = Inl e \<longrightarrow> auditCollection w' = auditCollection w" by blast
qed

lemma cleanupLogsRoute_reject:
  "bodyRetentionDays req = Some d \<Longrightarrow> d < 365 \<Longrightarrow>
   cleanupLogsRoute env req w = (Inr \<lparr>status = 400, json = JObj [
            (''error'', JStr ''Retention period must be at least 365 days for compliance''),
            (''code'', JStr ''INVALID_RETENTION'')]\<rparr>, w)"
  by (simp add: cleanupLogsRoute_def tryCatch_def ret_def)

text \<open>
  C6. One run of \<open>cleanupOldLogs\<close> leaves every remaining audit record as it was and
  removes only records whose timestamp is strictly before the current time minus the
  retention days, at most 500 of them, and returns how many it removed; when the store
  rejects the query or the commit nothing is removed. A cleanup request whose
  \<open>retentionDays\<close> is below 365 is answered with status 400 (code INVALID_RETENTION) and
  leaves the whole world, the audit collection included, unchanged.
\<close>

theorem C6_cleanup_by_age_and_retention_floor:
  assumes "distinct (map fst (auditCollection w))"
  shows "(cleanupOldLogs env (Some days) w = (r, w') \<longrightarrow>
            set (auditCollection w') \<subseteq> set (auditCollection w)
            \<and> (\<forall>doc \<in> set (auditCollection w) - set (auditCollection w').
                  \<exists>t. getProp (snd doc) ''timestamp'' = JNum t \<and> t < now w - days * msPerDay)
            \<and> length (auditCollection w) - length (auditCollection w') \<le> 500
            \<and> (\<forall>n. r = Inr n \<longrightarrow> n = length (auditCollection w) - length (auditCollection w'))
            \<and> (\<forall>e. r = Inl e \<longrightarrow> auditCollection w' = auditCollection w))
       \<and> (bodyRetentionDays req = Some days \<and> days < 365 \<longrightarrow>
            (\<exists>res. cleanupLogsRoute env req w = (Inr res, w) \<and> status res = 400
                   \<and> getProp (json res) ''code'' = JStr ''INVALID_RETENTION''))"
proof (intro conjI impI)
  assume run: "cleanupOldLogs env (Some days) w = (r, w')"
  note eff = cleanupOldLogs_effect [OF assms run]
  from eff(1) show "set (auditCollection w') \<subseteq> set (auditCollection w)" .
  from eff(2) show "\<forall>doc \<in> set (auditCollection w) - set (auditCollection w').
                  \<exists>t. getProp (snd doc) ''timestamp'' = JNum t \<and> t < now w - days * msPerDay"
    by (simp add: olderThan_iff)
  from eff(3) show "length (auditCollection w) - length (auditCollection w') \<le> 500" .
  from eff(4) show "\<forall>n. r = Inr n \<longrightarrow> n = length (auditCollection w) - length (auditCollection w')" .
  from eff(5) show "\<forall>e. r = Inl e \<longrightarrow> auditCollection w' = auditCollection w" .
next
  assume "bodyRetentionDays req = Some days \<and> days < 365"
  then show "\<exists>res. cleanupLogsRoute env req w = (Inr res, w) \<and> status res = 400
                   \<and> getProp (json res) ''code'' = JStr ''INVALID_RETENTION''"
    by (simp add: cleanupLogsRoute_reject)
qed

theorem C6_witness:
  "distinct (map fst (auditCollection world0))
   \<and> cleanupOldLogs env0 (Some 365) world0 =
       (Inr 1, world0\<lparr>auditOps := 2, auditCollection := [(''a2'', recentEvent)],
                  console := [ConsoleLog ''Deleted old audit logs'' (JNum 1)]\<rparr>)
   \<and> getProp oldEvent ''timestamp'' = JNum 0 \<and> (0::int) < now world0 - 365 * msPerDay
   \<and> bodyRetentionDays cleanupRequest30 = Some 30 \<and> (30::int) < 365
   \<and> fst (cleanupLogsRoute env0 cleanupRequest30 world0) =
       Inr \<lparr>status = 400, json = JObj [
            (''error'', JStr ''Retention period must be at least 365 days for compliance''),
            (''code'', JStr ''INVALID_RETENTION'')]\<rparr>
   \<and> snd (cleanupLogsRoute env0 cleanupRequest30 world0) = world0"
  using C6_cleanup_by_age_and_retention_floor [of world0 env0 365 "Inr 1"
      "world0\<lparr>auditOps := 2, auditCollection := [(''a2'', recentEvent)],
                  console := [ConsoleLog ''Deleted old audit logs'' (JNum 1)]\<rparr>" cleanupRequest30]
    C6_cleanup_by_age_and_retention_floor [of world0 env0 30 "Inr 1" world0 cleanupRequest30]
  by (simp add: cleanupOldLogs_run cleanupLogsRoute_reject world0_def env0_def cleanupRequest30_def
      oldEvent_def recentEvent_def olderThan_def msPerDay_def Let_def numeral_2_eq_2)

section \<open>Document service: theorems\<close>

lemma andThen_Inr: "fst (m w) = Inr x \<Longrightarrow> andThen m f w = f x (snd (m w))"
  by (cases "m w") (simp add: andThen_def)

lemma andThen_Inl: "fst (m w) = Inl e \<Longrightarrow> andThen m f w = (Inl e, snd (m w))"
  by (cases "m w") (simp add: andThen_def)

lemma andThen_logEvent:
  "andThen (logEvent env eventData) f w =
     f (if auditStoreFails env (auditOps w) then JNull else JStr (uuidv4 env (uuidCalls w)))
       (snd (logEvent env eventData w))"
  by (rule andThen_Inr) (rule logEvent_result)

lemma update_fresh: "k \<notin> fst ` set al \<Longrightarrow> AList.update k v al = al @ [(k, v)]"
  by (induction al) auto

text \<open>The denial path of \<open>uploadDocument\<close>: the two audit calls, then the error.\<close>

lemma uploadDocument_denied:
  assumes "\<not> canUploadDocument userInfo metadata"
  shows "uploadDocument env fileBuffer metadata userInfo requestInfo w =
     (Inl (Error ''Insufficient permissions to upload document''),
      snd (logEvent env (documentUploadEvent (uploadFailed fileBuffer metadata userInfo requestInfo
              (Error ''Insufficient permissions to upload document'')))
            (snd (logEvent env (accessDeniedEvent (uploadDenied userInfo requestInfo)) w))))"
  using assms
  by (simp add: uploadDocument_def tryCatch_def logAccessDenied_def logDocumentUpload_def
      andThen_logEvent throw_def)

lemma buildAuditLog_eventType [simp]:
  "getProp (buildAuditLog env i t eventData) ''eventType'' = getProp eventData ''eventType''"
  by (simp add: buildAuditLog_def)

lemma eventType_simps [simp]:
  "getProp (accessDeniedEvent d) ''eventType'' = JStr ACCESS_DENIED"
  "getProp (documentUploadEvent d) ''eventType'' = JStr DOCUMENT_UPLOAD"
  "getProp (documentDownloadEvent d) ''eventType'' = JStr DOCUMENT_DOWNLOAD"
  "getProp (documentDeleteEvent d) ''eventType'' = JStr DOCUMENT_DELETE"
  by (simp_all add: accessDeniedEvent_def documentUploadEvent_def documentDownloadEvent_def
      documentDeleteEvent_def)

lemma employee_cannot_upload:
  "role u = Some roles_EMPLOYEE \<Longrightarrow> \<not> canUploadDocument u m"
  by (simp add: canUploadDocument_def hasRole.simps(2) roles_EMPLOYEE_def roles_ADMIN_def roles_HR_def)

lemma eventsOfType_append:
  "auditCollection w' = auditCollection w @ rows \<Longrightarrow>
   eventsOfType t w' = eventsOfType t w @ filter (\<lambda>row. getProp (snd row) ''eventType'' = JStr t) rows"
  by (simp add: eventsOfType_def)

text \<open>
  C5, amended. An upload by a principal whose role is employee is always refused: the call
  throws \<open>Error('Insufficient permissions to upload document')\<close> and the documents
  collection is unchanged. When the audit store accepts the write (and the generated ids
  are new), exactly one access-denied record is added; it names the reason
  \<open>insufficient_permissions\<close>, the required roles hr and admin, the attempted action and
  the caller's uid and role. (The catch block then logs a failed document-upload event.)
\<close>

theorem C5_employee_upload_denied:
  fixes env :: env and fileBuffer :: "8 word list" and metadata requestInfo :: jsval
    and u :: user and w :: world
  assumes emp: "role u = Some roles_EMPLOYEE"
  defines "w' \<equiv> snd (uploadDocument env fileBuffer metadata u requestInfo w)"
    and "id1 \<equiv> uuidv4 env (uuidCalls w)"
    and "id2 \<equiv> uuidv4 env (Suc (uuidCalls w))"
  defines "ev1 \<equiv> buildAuditLog env id1 (now w) (accessDeniedEvent (uploadDenied u requestInfo))"
  shows "fst (uploadDocument env fileBuffer metadata u requestInfo w) =
           Inl (Error ''Insufficient permissions to upload document'')
     \<and> documentsCollection w' = documentsCollection w
     \<and> (\<not> auditStoreFails env (auditOps w) \<and> id1 \<notin> fst ` set (auditCollection w)
          \<and> id2 \<notin> fst ` set (auditCollection w) \<and> id2 \<noteq> id1 \<longrightarrow>
        eventsOfType ACCESS_DENIED w' = eventsOfType ACCESS_DENIED w @ [(id1, ev1)])
     \<and> getProp (getProp ev1 ''metadata'') ''reason'' = JStr ''insufficient_permissions''
     \<and> getProp (getProp ev1 ''metadata'') ''requiredRole'' = JArr [JStr roles_HR, JStr roles_ADMIN]
     \<and> getProp (getProp ev1 ''metadata'') ''attemptedAction'' = JStr ''upload_document''
     \<and> getProp (getProp ev1 ''user'') ''role'' = JStr roles_EMPLOYEE
     \<and> getProp (getProp ev1 ''user'') ''uid'' = JStr (uid u)
     \<and> getProp (getProp ev1 ''action'') ''success'' = JBool False"
proof (intro conjI impI)
  note run = uploadDocument_denied [OF employee_cannot_upload [OF emp],
      of env fileBuffer metadata requestInfo w]
  show "fst (uploadDocument env fileBuffer metadata u requestInfo w) =
           Inl (Error ''Insufficient permissions to upload document'')"
    by (simp add: run)
  show "documentsCollection w' = documentsCollection w"
    by (simp add: w'_def run logEvent_frame)
  show "getProp (getProp ev1 ''metadata'') ''reason'' = JStr ''insufficient_permissions''"
    by (simp add: ev1_def buildAuditLog_def accessDeniedEvent_def uploadDenied_def orElse_def
        userFields_def contextFields_def)
  show "getProp (getProp ev1 ''metadata'') ''requiredRole'' = JArr [JStr roles_HR, JStr roles_ADMIN]"
    by (simp add: ev1_def buildAuditLog_def accessDeniedEvent_def uploadDenied_def orElse_def
        userFields_def contextFields_def)
  show "getProp (getProp ev1 ''metadata'') ''attemptedAction'' = JStr ''upload_document''"
    by (simp add: ev1_def buildAuditLog_def accessDeniedEvent_def uploadDenied_def orElse_def
        userFields_def contextFields_def)
  show "getProp (getProp ev1 ''user'') ''role'' = JStr roles_EMPLOYEE"
    by (simp add: ev1_def buildAuditLog_def accessDeniedEvent_def uploadDenied_def
        userFields_def contextFields_def emp)
  show "getProp (getProp ev1 ''user'') ''uid'' = JStr (uid u)"
    by (simp add: ev1_def buildAuditLog_def accessDeniedEvent_def uploadDenied_def
        userFields_def contextFields_def)
  show "getProp (getProp ev1 ''action'') ''success'' = JBool False"
    by (simp add: ev1_def buildAuditLog_def accessDeniedEvent_def uploadDenied_def
        userFields_def contextFields_def)
  assume ok: "\<not> auditStoreFails env (auditOps w) \<and> id1 \<notin> fst ` set (auditCollection w)
          \<and> id2 \<notin> fst ` set (auditCollection w) \<and> id2 \<noteq> id1"
  define ev2 where "ev2 = buildAuditLog env id2 (now w) (documentUploadEvent
      (uploadFailed fileBuffer metadata u requestInfo
         (Error ''Insufficient permissions to upload document'')))"
  from ok have fresh2: "id2 \<notin> fst ` set (auditCollection w @ [(id1, ev1)])" by auto
  have "auditCollection w' = auditCollection w @ [(id1, ev1)]
          @ (if auditStoreFails env (Suc (auditOps w)) then [] else [(id2, ev2)])"
    using ok fresh2
    by (simp add: w'_def run logEvent_auditCollection logEvent_frame update_fresh
        id1_def [symmetric] id2_def [symmetric] ev1_def [symmetric] ev2_def [symmetric])
  from eventsOfType_append [OF this, of ACCESS_DENIED]
  show "eventsOfType ACCESS_DENIED w' = eventsOfType ACCESS_DENIED w @ [(id1, ev1)]"
    by (simp add: ev1_def ev2_def ACCESS_DENIED_def DOCUMENT_UPLOAD_def)
qed

text \<open>
  C5 as stated fails when the audit store rejects the write: the upload is refused all the
  same, but no access-denied record is added (\<open>logEvent\<close> only writes to the console).
\<close>

theorem C5_counterexample:
  "role employeeE1 = Some roles_EMPLOYEE
   \<and> fst (uploadDocument envAuditDown [1, 2, 3] uploadRequest employeeE1 clientContext world0) =
       Inl (Error ''Insufficient permissions to upload document'')
   \<and> auditCollection (snd (uploadDocument envAuditDown [1, 2, 3] uploadRequest employeeE1
         clientContext world0)) = auditCollection world0
   \<and> eventsOfType ACCESS_DENIED (snd (uploadDocument envAuditDown [1, 2, 3] uploadRequest
         employeeE1 clientContext world0)) = []"
proof -
  have emp: "role employeeE1 = Some roles_EMPLOYEE"
    by (simp add: employeeE1_def roles_EMPLOYEE_def)
  have down: "auditStoreFails envAuditDown n" for n
    by (simp add: envAuditDown_def)
  have none: "eventsOfType ACCESS_DENIED world0 = []"
    by (simp add: eventsOfType_def world0_def oldEvent_def recentEvent_def ACCESS_DENIED_def)
  show ?thesis
    by (simp add: emp uploadDocument_denied [OF employee_cannot_upload [OF emp]]
        logEvent_auditCollection logEvent_frame down eventsOfType_def none [unfolded eventsOfType_def])
qed

theorem C5_witness:
  "role employeeE1 = Some roles_EMPLOYEE
   \<and> \<not> auditStoreFails env0 (auditOps world0)
   \<and> uuidv4 env0 (uuidCalls world0) \<notin> fst ` set (auditCollection world0)
   \<and> uuidv4 env0 (Suc (uuidCalls world0)) \<notin> fst ` set (auditCollection world0)
   \<and> uuidv4 env0 (Suc (uuidCalls world0)) \<noteq> uuidv4 env0 (uuidCalls world0)
   \<and> eventsOfType ACCESS_DENIED world0 = []
   \<and> length (eventsOfType ACCESS_DENIED
         (snd (uploadDocument env0 [1, 2, 3] uploadRequest employeeE1 clientContext world0))) = 1
   \<and> documentsCollection (snd (uploadDocument env0 [1, 2, 3] uploadRequest employeeE1
         clientContext world0)) = documentsCollection world0"
proof -
  have emp: "role employeeE1 = Some roles_EMPLOYEE"
    by (simp add: employeeE1_def roles_EMPLOYEE_def)
  have pre: "\<not> auditStoreFails env0 (auditOps world0)
     \<and> uuidv4 env0 (uuidCalls world0) \<notin> fst ` set (auditCollection world0)
     \<and> uuidv4 env0 (Suc (uuidCalls world0)) \<notin> fst ` set (auditCollection world0)
     \<and> uuidv4 env0 (Suc (uuidCalls world0)) \<noteq> uuidv4 env0 (uuidCalls world0)"
    by (simp add: env0_def world0_def)
  have none: "eventsOfType ACCESS_DENIED world0 = []"
    by (simp add: eventsOfType_def world0_def oldEvent_def recentEvent_def ACCESS_DENIED_def)
  from C5_employee_upload_denied [OF emp, of env0 "[1, 2, 3]" uploadRequest clientContext world0]
    pre none emp
  show ?thesis by simp
qed

lemma documentsCollection_get_run:
  "documentsCollection_get env docId w =
     (if documentStoreFails env (documentOps w)
      then (Inl (Error ''document store unavailable''), w\<lparr>documentOps := Suc (documentOps w)\<rparr>)
      else (Inr (map_of (documentsCollection w) docId), w\<lparr>documentOps := Suc (documentOps w)\<rparr>))"
  by (simp add: documentsCollection_get_def documentOp_def Let_def)

text \<open>The denial path of \<open>downloadDocument\<close>.\<close>

lemma downloadDocument_denied:
  assumes "\<not> documentStoreFails env (documentOps w)"
    and "map_of (documentsCollection w) docId = Some d"
    and "\<not> truthy (canAccessDocument userInfo d)"
  shows "downloadDocument env docId userInfo requestInfo w =
     (Inl (Error ''Access denied''),
      snd (logEvent env (documentDownloadEvent (downloadFailed docId userInfo requestInfo
              (Error ''Access denied'')))
            (snd (logEvent env (accessDeniedEvent (downloadDenied docId d userInfo requestInfo))
                   (w\<lparr>documentOps := Suc (documentOps w)\<rparr>)))))"
  using assms
  by (simp add: downloadDocument_def tryCatch_def andThen_def [of "documentsCollection_get env docId"]
      documentsCollection_get_run logAccessDenied_def logDocumentDownload_def
      andThen_logEvent throw_def)

lemma foreign_employee_denied:
  assumes "role e = Some roles_EMPLOYEE" "docEmployeeId d \<noteq> employeeId e"
    "ownerId d \<noteq> Some (uid e)" "uid e \<notin> set (case sharedWith d of None \<Rightarrow> [] | Some sw \<Rightarrow> sw)"
  shows "\<not> truthy (canAccessDocument e d)"
proof -
  from assms have "\<not> firebase_canAccessDocument (Some e) (Some d)"
    by (simp add: roles_ADMIN_def roles_HR_def roles_EMPLOYEE_def)
  from canAccessDocument_not_firebase [OF this] assms(4) show ?thesis
    by (auto simp: truthy_def split: option.splits)
qed

text \<open>
  C8, amended. When an employee whose employeeId differs from the document's, who is not
  its owner and is not in its sharing list downloads a stored document, the call throws
  \<open>Error('Access denied')\<close> and the document (its access counter included) is unchanged.
  When the audit store accepts both writes (and the generated ids are new), exactly two
  records are added: one access-denied record whose reason is \<open>access_denied\<close>, and one
  document-download record, written by the catch block, with success false and the error
  message \<open>Access denied\<close>.
\<close>

theorem C8_cross_employee_download_denied:
  fixes env :: env and docId :: string and requestInfo :: jsval
    and e :: user and d :: documentMetadata and w :: world
  assumes emp: "role e = Some roles_EMPLOYEE"
    and foreign: "docEmployeeId d \<noteq> employeeId e" "ownerId d \<noteq> Some (uid e)"
      "uid e \<notin> set (case sharedWith d of None \<Rightarrow> [] | Some sw \<Rightarrow> sw)"
    and stored: "map_of (documentsCollection w) docId = Some d"
    and readable: "\<not> documentStoreFails env (documentOps w)"
  defines "w' \<equiv> snd (downloadDocument env docId e requestInfo w)"
    and "id1 \<equiv> uuidv4 env (uuidCalls w)"
    and "id2 \<equiv> uuidv4 env (Suc (uuidCalls w))"
  defines "ev1 \<equiv> buildAuditLog env id1 (now w)
                    (accessDeniedEvent (downloadDenied docId d e requestInfo))"
    and "ev2 \<equiv> buildAuditLog env id2 (now w)
                    (documentDownloadEvent (downloadFailed docId e requestInfo (Error ''Access denied'')))"
  shows "fst (downloadDocument env docId e requestInfo w) = Inl (Error ''Access denied'')
     \<and> documentsCollection w' = documentsCollection w
     \<and> (\<not> auditStoreFails env (auditOps w) \<and> \<not> auditStoreFails env (Suc (auditOps w))
          \<and> id1 \<notin> fst ` set (auditCollection w) \<and> id2 \<notin> fst ` set (auditCollection w)
          \<and> id2 \<noteq> id1 \<longrightarrow>
        auditCollection w' = auditCollection w @ [(id1, ev1), (id2, ev2)]
        \<and> eventsOfType ACCESS_DENIED w' = eventsOfType ACCESS_DENIED w @ [(id1, ev1)]
        \<and> eventsOfType DOCUMENT_DOWNLOAD w' = eventsOfType DOCUMENT_DOWNLOAD w @ [(id2, ev2)])
     \<and> getProp (getProp ev1 ''metadata'') ''reason'' = JStr ''access_denied''
     \<and> getProp (getProp ev1 ''resource'') ''id'' = JStr docId
     \<and> getProp (getProp ev1 ''user'') ''uid'' = JStr (uid e)
     \<and> getProp (getProp ev2 ''action'') ''success'' = JBool False
     \<and> getProp (getProp ev2 ''action'') ''errorMessage'' = JStr ''Access denied''"
proof (intro conjI impI)
  note run = downloadDocument_denied [OF readable stored foreign_employee_denied [OF emp foreign],
      of requestInfo]
  show "fst (downloadDocument env docId e requestInfo w) = Inl (Error ''Access denied'')"
    by (simp add: run)
  show "documentsCollection w' = documentsCollection w"
    by (simp add: w'_def run logEvent_frame)
  show "getProp (getProp ev1 ''metadata'') ''reason'' = JStr ''access_denied''"
    by (simp add: ev1_def buildAuditLog_def accessDeniedEvent_def downloadDenied_def orElse_def
        userFields_def contextFields_def)
  show "getProp (getProp ev1 ''resource'') ''id'' = JStr docId"
    by (simp add: ev1_def buildAuditLog_def accessDeniedEvent_def downloadDenied_def orElse_def
        userFields_def contextFields_def)
  show "getProp (getProp ev1 ''user'') ''uid'' = JStr (uid e)"
    by (simp add: ev1_def buildAuditLog_def accessDeniedEvent_def downloadDenied_def
        userFields_def contextFields_def)
  show "getProp (getProp ev2 ''action'') ''success'' = JBool False"
    by (simp add: ev2_def buildAuditLog_def documentDownloadEvent_def downloadFailed_def
        userFields_def contextFields_def)
  show "getProp (getProp ev2 ''action'') ''errorMessage'' = JStr ''Access denied''"
    by (simp add: ev2_def buildAuditLog_def documentDownloadEvent_def downloadFailed_def
        userFields_def contextFields_def orElse_def)
  assume ok: "\<not> auditStoreFails env (auditOps w) \<and> \<not> auditStoreFails env (Suc (auditOps w))
          \<and> id1 \<notin> fst ` set (auditCollection w) \<and> id2 \<notin> fst ` set (auditCollection w)
          \<and> id2 \<noteq> id1"
  then have fresh2: "id2 \<notin> fst ` set (auditCollection w @ [(id1, ev1)])" by auto
  show app: "auditCollection w' = auditCollection w @ [(id1, ev1), (id2, ev2)]"
    using ok fresh2
    by (simp add: w'_def run logEvent_auditCollection logEvent_frame update_fresh
        id1_def [symmetric] id2_def [symmetric] ev1_def [symmetric] ev2_def [symmetric])
  from eventsOfType_append [OF app, of ACCESS_DENIED]
  show "eventsOfType ACCESS_DENIED w' = eventsOfType ACCESS_DENIED w @ [(id1, ev1)]"
    by (simp add: ev1_def ev2_def ACCESS_DENIED_def DOCUMENT_DOWNLOAD_def)
  from eventsOfType_append [OF app, of DOCUMENT_DOWNLOAD]
  show "eventsOfType DOCUMENT_DOWNLOAD w' = eventsOfType DOCUMENT_DOWNLOAD w @ [(id2, ev2)]"
    by (simp add: ev1_def ev2_def ACCESS_DENIED_def DOCUMENT_DOWNLOAD_def)
qed

lemma world0_facts:
  "map_of (documentsCollection world0) ''doc-1'' = Some slipE1"
  "\<not> documentStoreFails env0 (documentOps world0)"
  "\<not> auditStoreFails env0 n"
  "uuidv4 env0 (uuidCalls world0) \<notin> fst ` set (auditCollection world0)"
  "uuidv4 env0 (Suc (uuidCalls world0)) \<notin> fst ` set (auditCollection world0)"
  "uuidv4 env0 (Suc (uuidCalls world0)) \<noteq> uuidv4 env0 (uuidCalls world0)"
  "eventsOfType ACCESS_DENIED world0 = []"
  "eventsOfType DOCUMENT_DOWNLOAD world0 = []"
  by (simp_all add: world0_def env0_def eventsOfType_def oldEvent_def recentEvent_def
      ACCESS_DENIED_def DOCUMENT_DOWNLOAD_def)

lemma employeeE2_facts:
  "role employeeE2 = Some roles_EMPLOYEE"
  "docEmployeeId slipE1 \<noteq> employeeId employeeE2"
  "ownerId slipE1 \<noteq> Some (uid employeeE2)"
  "uid employeeE2 \<notin> set (case sharedWith slipE1 of None \<Rightarrow> [] | Some sw \<Rightarrow> sw)"
  by (simp_all add: employeeE2_def slipE1_def roles_EMPLOYEE_def)

text \<open>
  C8 as stated fails on the code: employee E2 downloading E1's salary slip is refused, but
  the reason recorded is \<open>access_denied\<close>, not \<open>not_own_resource\<close>, and the catch block
  of \<open>downloadDocument\<close> does append a document-download record.
\<close>

theorem C8_counterexample:
  "role employeeE2 = Some roles_EMPLOYEE
   \<and> docEmployeeId slipE1 \<noteq> employeeId employeeE2
   \<and> ownerId slipE1 \<noteq> Some (uid employeeE2)
   \<and> sharedWith slipE1 = Some []
   \<and> map_of (documentsCollection world0) ''doc-1'' = Some slipE1
   \<and> eventsOfType DOCUMENT_DOWNLOAD world0 = []
   \<and> length (eventsOfType DOCUMENT_DOWNLOAD
         (snd (downloadDocument env0 ''doc-1'' employeeE2 clientContext world0))) = 1
   \<and> map (\<lambda>row. getProp (getProp (snd row) ''metadata'') ''reason'')
         (eventsOfType ACCESS_DENIED
            (snd (downloadDocument env0 ''doc-1'' employeeE2 clientContext world0)))
       = [JStr ''access_denied'']"
proof -
  note run = downloadDocument_denied [OF world0_facts(2,1)
      foreign_employee_denied [OF employeeE2_facts], of clientContext]
  have "auditCollection (snd (downloadDocument env0 ''doc-1'' employeeE2 clientContext world0))
      = auditCollection world0 @
        [(uuidv4 env0 0, buildAuditLog env0 (uuidv4 env0 0) (now world0)
                    (accessDeniedEvent (downloadDenied ''doc-1'' slipE1 employeeE2 clientContext))),
         (uuidv4 env0 1, buildAuditLog env0 (uuidv4 env0 1) (now world0)
                    (documentDownloadEvent (downloadFailed ''doc-1'' employeeE2 clientContext
                       (Error ''Access denied''))))]"
    using world0_facts(4,5,6)
    by (simp add: run logEvent_auditCollection logEvent_frame world0_facts(3) update_fresh)
       (simp add: world0_def update_fresh)
  from eventsOfType_append [OF this, of DOCUMENT_DOWNLOAD]
    eventsOfType_append [OF this, of ACCESS_DENIED]
  show ?thesis
    by (simp add: world0_facts employeeE2_facts)
       (simp add: slipE1_def ACCESS_DENIED_def DOCUMENT_DOWNLOAD_def buildAuditLog_def
          accessDeniedEvent_def downloadDenied_def userFields_def contextFields_def orElse_def)
qed

theorem C8_witness:
  "role employeeE2 = Some roles_EMPLOYEE
   \<and> docEmployeeId slipE1 \<noteq> employeeId employeeE2
   \<and> ownerId slipE1 \<noteq> Some (uid employeeE2)
   \<and> uid employeeE2 \<notin> set (case sharedWith slipE1 of None \<Rightarrow> [] | Some sw \<Rightarrow> sw)
   \<and> map_of (documentsCollection world0) ''doc-1'' = Some slipE1
   \<and> \<not> documentStoreFails env0 (documentOps world0)
   \<and> \<not> auditStoreFails env0 (auditOps world0) \<and> \<not> auditStoreFails env0 (Suc (auditOps world0))
   \<and> fst (downloadDocument env0 ''doc-1'' employeeE2 clientContext world0) = Inl (Error ''Access denied'')
   \<and> length (auditCollection (snd (downloadDocument env0 ''doc-1'' employeeE2 clientContext world0)))
       = length (auditCollection world0) + 2
   \<and> length (eventsOfType ACCESS_DENIED
         (snd (downloadDocument env0 ''doc-1'' employeeE2 clientContext world0))) = 1"
  using C8_cross_employee_download_denied [OF employeeE2_facts world0_facts(1,2), of clientContext]
    world0_facts employeeE2_facts
  by simp

section \<open>Soft deletion: theorems\<close>

text \<open>Stability is compositional over the combinators the operations are written with.\<close>

lemma stableI: "(\<And>w. P w \<Longrightarrow> P (snd (m w))) \<Longrightarrow> stable P m"
  by (simp add: stable_def)

lemma stableD: "stable P m \<Longrightarrow> P w \<Longrightarrow> P (snd (m w))"
  by (simp add: stable_def)

lemma stable_ret: "stable P (ret x)"
  by (simp add: stable_def ret_def)

lemma stable_throw: "stable P (throw e)"
  by (simp add: stable_def throw_def)

lemma stable_andThen:
  assumes "stable P m" "\<And>x. stable P (f x)"
  shows "stable P (andThen m f)"
proof (rule stableI)
  fix w assume "P w"
  with assms(1) have 1: "P (snd (m w))" by (rule stableD)
  show "P (snd (andThen m f w))"
  proof (cases "m w")
    case (Pair r w')
    with 1 have "P w'" by simp
    with assms(2) have "P (snd (f x w'))" for x by (rule stableD)
    with Pair \<open>P w'\<close> show ?thesis by (cases r) (simp_all add: andThen_def)
  qed
qed

lemma stable_tryCatch:
  assumes "stable P m" "\<And>e. stable P (h e)"
  shows "stable P (tryCatch m h)"
proof (rule stableI)
  fix w assume "P w"
  with assms(1) have 1: "P (snd (m w))" by (rule stableD)
  show "P (snd (tryCatch m h w))"
  proof (cases "m w")
    case (Pair r w')
    with 1 have "P w'" by simp
    with assms(2) have "P (snd (h e w'))" for e by (rule stableD)
    with Pair \<open>P w'\<close> show ?thesis by (cases r) (simp_all add: tryCatch_def)
  qed
qed

lemma stable_world: "(\<And>w0. stable P (f w0)) \<Longrightarrow> stable P (\<lambda>w. f w w)"
  by (simp add: stable_def)

lemma stable_if: "stable P m \<Longrightarrow> stable P n \<Longrightarrow> stable P (if b then m else n)"
  by simp

lemma stable_case_option:
  "stable P a \<Longrightarrow> (\<And>x. stable P (b x)) \<Longrightarrow> stable P (case v of None \<Rightarrow> a | Some x \<Rightarrow> b x)"
  by (cases v) simp_all

text \<open>Predicates that read only the documents collection, and the steps that do not
  write it.\<close>

lemma stable_frame:
  "(\<And>w. documentsCollection (snd (m w)) = documentsCollection w) \<Longrightarrow>
   stable (\<lambda>w. Q (documentsCollection w)) m"
  by (simp add: stable_def)

lemma stable_console:
  "stable (\<lambda>w. Q (documentsCollection w)) (consoleLog msg v)"
  "stable (\<lambda>w. Q (documentsCollection w)) (consoleError msg e)"
  by (simp_all add: stable_def consoleLog_def consoleError_def)

lemma stable_logEvent: "stable (\<lambda>w. Q (documentsCollection w)) (logEvent env eventData)"
  by (rule stable_frame) (rule logEvent_frame)

lemma stable_log:
  "stable (\<lambda>w. Q (documentsCollection w)) (logAccessDenied env data)"
  "stable (\<lambda>w. Q (documentsCollection w)) (logDocumentUpload env data)"
  "stable (\<lambda>w. Q (documentsCollection w)) (logDocumentDownload env data)"
  "stable (\<lambda>w. Q (documentsCollection w)) (logDocumentDelete env data)"
  by (simp_all add: logAccessDenied_def logDocumentUpload_def logDocumentDownload_def
      logDocumentDelete_def stable_logEvent)

lemma stable_documentsCollection_get:
  "stable (\<lambda>w. Q (documentsCollection w)) (documentsCollection_get env docId)"
  by (simp add: stable_def documentsCollection_get_run)

lemma stable_andThen_storageCall:
  assumes "\<And>n x. f n = Inr x \<Longrightarrow> stable (\<lambda>w. Q (documentsCollection w)) (g x)"
  shows "stable (\<lambda>w. Q (documentsCollection w)) (andThen (storageCall f) g)"
proof (rule stableI)
  fix w :: world assume Q: "Q (documentsCollection w)"
  show "Q (documentsCollection (snd (andThen (storageCall f) g w)))"
  proof (cases "f (storageCalls w)")
    case (Inl e)
    with Q show ?thesis by (simp add: andThen_def storageCall_def)
  next
    case (Inr x)
    from stableD [OF assms [OF Inr], of "w\<lparr>storageCalls := Suc (storageCalls w)\<rparr>"] Q Inr
    show ?thesis by (simp add: andThen_def storageCall_def)
  qed
qed

lemma stable_docRef_update:
  assumes "\<And>rows d. Q rows \<Longrightarrow> map_of rows docId = Some d \<Longrightarrow> Q (AList.update docId (change d) rows)"
  shows "stable (\<lambda>w. Q (documentsCollection w)) (docRef_update env docId change)"
  using assms
  by (auto simp: stable_def docRef_update_def andThen_def documentOp_def Let_def throw_def
      split: option.splits)

lemma stable_documentsCollection_set:
  assumes "\<And>rows. Q rows \<Longrightarrow> Q (AList.update docId d rows)"
  shows "stable (\<lambda>w. Q (documentsCollection w)) (documentsCollection_set env docId d)"
  using assms
  by (auto simp: stable_def documentsCollection_set_def documentOp_def Let_def)

text \<open>The invariant: keys are distinct and the document is stored inactive.\<close>

lemma deleted_update_other:
  assumes "distinct (map fst rows) \<and> (case map_of rows rid of None \<Rightarrow> False | Some d \<Rightarrow> \<not> isActive d)"
    and "docId \<noteq> rid"
  shows "distinct (map fst (AList.update docId d' rows))
     \<and> (case map_of (AList.update docId d' rows) rid of None \<Rightarrow> False | Some d \<Rightarrow> \<not> isActive d)"
  using assms by (simp add: distinct_update update_conv')

lemma deleted_update_same:
  assumes "distinct (map fst rows) \<and> (case map_of rows rid of None \<Rightarrow> False | Some d \<Rightarrow> \<not> isActive d)"
    and "\<not> isActive d'"
  shows "distinct (map fst (AList.update docId d' rows))
     \<and> (case map_of (AList.update docId d' rows) rid of None \<Rightarrow> False | Some d \<Rightarrow> \<not> isActive d)"
  using assms by (simp add: distinct_update update_conv')

lemma deleted_update_change:
  assumes "distinct (map fst rows) \<and> (case map_of rows rid of None \<Rightarrow> False | Some d \<Rightarrow> \<not> isActive d)"
    and "map_of rows docId = Some d0" and "\<not> isActive d0 \<Longrightarrow> \<not> isActive (change d0)"
  shows "distinct (map fst (AList.update docId (change d0) rows))
     \<and> (case map_of (AList.update docId (change d0) rows) rid of None \<Rightarrow> False | Some d \<Rightarrow> \<not> isActive d)"
proof (cases "docId = rid")
  case True
  from assms(2) have m: "map_of rows rid = Some d0" unfolding True .
  have "\<not> isActive d0" using assms(1) unfolding m by simp
  then have "\<not> isActive (change d0)" by (rule assms(3))
  with assms(1) show ?thesis by (rule deleted_update_same)
next
  case False
  with assms(1) show ?thesis by (rule deleted_update_other)
qed

lemma deletedIn_iff:
  "deletedIn rid (documentsCollection w) \<longleftrightarrow>
     distinct (map fst (documentsCollection w)) \<and> softDeleted rid w"
  by (simp add: deletedIn_def softDeleted_def)

lemma deletedIn_change:
  "deletedIn rid rows \<Longrightarrow> map_of rows docId = Some d0 \<Longrightarrow>
   (\<not> isActive d0 \<Longrightarrow> \<not> isActive (change d0)) \<Longrightarrow>
   deletedIn rid (AList.update docId (change d0) rows)"
  unfolding deletedIn_def by (rule deleted_update_change)

lemma deletedIn_other:
  "deletedIn rid rows \<Longrightarrow> docId \<noteq> rid \<Longrightarrow> deletedIn rid (AList.update docId d' rows)"
  unfolding deletedIn_def by (rule deleted_update_other)

lemma stable_docRef_update_now:
  assumes "\<And>w0 rows d. Q rows \<Longrightarrow> map_of rows docId = Some d
             \<Longrightarrow> Q (AList.update docId (change w0 d) rows)"
  shows "stable (\<lambda>w. Q (documentsCollection w)) (\<lambda>w. docRef_update env docId (change w) w)"
proof (rule stableI)
  fix w :: world assume "Q (documentsCollection w)"
  with stable_docRef_update [of Q docId "change w" env, OF assms]
  show "Q (documentsCollection (snd (docRef_update env docId (change w) w)))"
    by (simp add: stable_def)
qed

lemma stable_set_now:
  assumes "\<And>w0 rows. Q rows \<Longrightarrow> Q (AList.update docId (d w0) rows)"
  shows "stable (\<lambda>w. Q (documentsCollection w)) (\<lambda>w. documentsCollection_set env docId (d w) w)"
proof (rule stableI)
  fix w :: world assume "Q (documentsCollection w)"
  with stable_documentsCollection_set [of Q docId "d w" env, OF assms]
  show "Q (documentsCollection (snd (documentsCollection_set env docId (d w) w)))"
    by (simp add: stable_def)
qed

lemma stable_ret_now: "stable P (\<lambda>w. ret (g w) w)"
  by (simp add: stable_def ret_def)

lemma stable_downloadDocument:
  "stable (\<lambda>w. deletedIn rid (documentsCollection w)) (downloadDocument env docId u req)"
  unfolding downloadDocument_def
  apply (intro stable_tryCatch stable_andThen_storageCall stable_docRef_update_now
      stable_andThen stable_case_option stable_if stable_throw stable_ret stable_log
      stable_documentsCollection_get)
  apply (erule (1) deletedIn_change)
  apply simp
  done

lemma stable_deleteDocument:
  "stable (\<lambda>w. deletedIn rid (documentsCollection w)) (deleteDocument env docId u req)"
  unfolding deleteDocument_def
  apply (intro stable_tryCatch stable_andThen_storageCall stable_docRef_update_now
      stable_andThen stable_case_option stable_if stable_throw stable_ret stable_log
      stable_documentsCollection_get)
  apply (erule (1) deletedIn_change)
  apply simp
  done

lemma stable_shareDocument:
  "stable (\<lambda>w. deletedIn rid (documentsCollection w)) (shareDocument env docId shareWith u)"
  unfolding shareDocument_def
  apply (intro stable_tryCatch stable_andThen_storageCall stable_docRef_update_now
      stable_andThen stable_case_option stable_if stable_throw stable_ret stable_log
      stable_documentsCollection_get stable_console)
  apply (erule (1) deletedIn_change)
  apply simp
  done

lemma stable_generateSignedUrl:
  "stable (\<lambda>w. Q (documentsCollection w)) (generateSignedUrl env docId u options)"
  unfolding generateSignedUrl_def
  by (intro stable_tryCatch stable_andThen_storageCall 
      stable_andThen stable_case_option stable_if stable_throw stable_ret stable_log
      stable_documentsCollection_get stable_console)

lemma stable_uploadDocument:
  assumes "\<And>n r. storage_uploadDocument env n fileBuffer metadata u = Inr r \<Longrightarrow> documentId r \<noteq> rid"
  shows "stable (\<lambda>w. deletedIn rid (documentsCollection w)) (uploadDocument env fileBuffer metadata u req)"
  unfolding uploadDocument_def
  apply (intro stable_tryCatch stable_andThen_storageCall stable_set_now stable_ret_now
      stable_andThen stable_case_option stable_if stable_throw stable_ret stable_log
      stable_documentsCollection_get stable_console)
  apply (erule deletedIn_other)
  apply (erule assms)
  done

lemma stable_case_jsval:
  assumes "stable P a1" "stable P a2" "\<And>b. stable P (a3 b)" "\<And>n. stable P (a4 n)"
    "\<And>s. stable P (a5 s)" "\<And>xs. stable P (a6 xs)" "\<And>kvs. stable P (a7 kvs)"
  shows "stable P (case v of JUndefined \<Rightarrow> a1 | JNull \<Rightarrow> a2 | JBool b \<Rightarrow> a3 b | JNum n \<Rightarrow> a4 n
                    | JStr s \<Rightarrow> a5 s | JArr xs \<Rightarrow> a6 xs | JObj kvs \<Rightarrow> a7 kvs)"
  using assms by (cases v) simp_all

lemma stable_documentOp_read:
  "stable (\<lambda>w. Q (documentsCollection w)) (documentOp env (\<lambda>w. (g w, w)))"
  by (simp add: stable_def documentOp_def Let_def)

lemma stable_pure: "stable P (\<lambda>w. (r, w))"
  by (simp add: stable_def)

lemma stable_listDocuments:
  "stable (\<lambda>w. Q (documentsCollection w)) (listDocuments env u filters pagination)"
  unfolding listDocuments_def
  by (intro stable_tryCatch stable_case_jsval stable_documentOp_read stable_pure
      stable_andThen stable_case_option stable_if stable_throw stable_ret
      stable_documentsCollection_get stable_console)

lemma stable_cleanupOldLogs:
  "stable (\<lambda>w. Q (documentsCollection w)) (cleanupOldLogs env rd)"
  by (rule stable_frame) (simp add: cleanupOldLogs_run Let_def)

lemma stable_cleanupLogsRoute:
  "stable (\<lambda>w. Q (documentsCollection w)) (cleanupLogsRoute env req)"
  unfolding cleanupLogsRoute_def Let_def
  by (intro stable_tryCatch stable_ret_now stable_cleanupOldLogs stable_logEvent
      stable_andThen stable_case_option stable_if stable_throw stable_ret stable_console)

lemma perform_keeps_deleted:
  assumes fresh: "\<And>n buf m u r. storage_uploadDocument env n buf m u = Inr r \<Longrightarrow> documentId r \<noteq> rid"
    and del: "deletedIn rid (documentsCollection w)"
  shows "deletedIn rid (documentsCollection (perform env op w))"
proof (cases op)
  case (Upload buf m u req)
  from stableD [OF stable_uploadDocument, of env buf m u rid _ req, OF fresh del] Upload
  show ?thesis by simp
next
  case (Download docId u req)
  from stableD [OF stable_downloadDocument del] Download show ?thesis by simp
next
  case (Delete docId u req)
  from stableD [OF stable_deleteDocument del] Delete show ?thesis by simp
next
  case (ListDocs u f p)
  from stableD [OF stable_listDocuments [of "deletedIn rid"] del] ListDocs show ?thesis by simp
next
  case (SignedUrl docId u opts)
  from stableD [OF stable_generateSignedUrl [of "deletedIn rid"] del] SignedUrl show ?thesis by simp
next
  case (Share docId sw u)
  from stableD [OF stable_shareDocument del] Share show ?thesis by simp
next
  case (LogEvent ev)
  from stableD [OF stable_logEvent [of "deletedIn rid"] del] LogEvent show ?thesis by simp
next
  case (CleanupLogs req)
  from stableD [OF stable_cleanupLogsRoute [of "deletedIn rid"] del] CleanupLogs show ?thesis by simp
qed

lemma performAll_keeps_deleted:
  assumes fresh: "\<And>n buf m u r. storage_uploadDocument env n buf m u = Inr r \<Longrightarrow> documentId r \<noteq> rid"
  shows "deletedIn rid (documentsCollection w) \<Longrightarrow>
         deletedIn rid (documentsCollection (performAll env ops w))"
proof (induction ops arbitrary: w)
  case Nil
  then show ?case by simp
next
  case (Cons op ops)
  from perform_keeps_deleted [OF fresh Cons.prems]
  have "deletedIn rid (documentsCollection (perform env op w))" .
  then show ?case by (simp add: Cons.IH)
qed

lemma listQuery_active:
  "row \<in> set (listQuery u filters limit cursor rows) \<Longrightarrow> row \<in> set rows \<and> isActive (snd row)"
  by (auto simp: listQuery_def Let_def dest!: in_set_takeD split: if_splits option.splits)

lemma deletedIn_not_listed:
  assumes "deletedIn rid rows" "row \<in> set (listQuery u filters limit cursor rows)"
  shows "fst row \<noteq> rid"
proof
  assume "fst row = rid"
  from listQuery_active [OF assms(2)] have mem: "row \<in> set rows" and act: "isActive (snd row)"
    by simp_all
  from assms(1) have "distinct (map fst rows)" by (simp add: deletedIn_def)
  with mem \<open>fst row = rid\<close> have "map_of rows rid = Some (snd row)"
    by (metis map_of_is_SomeI prod.collapse)
  with assms(1) act show False by (simp add: deletedIn_def)
qed

text \<open>The ids of the summaries a listing returns are the ids of the rows of its query.\<close>

lemma documentSummary_id: "documentSummary row = Inr summary \<Longrightarrow> getProp summary ''id'' = JStr (fst row)"
  by (auto simp: documentSummary_def split: sum.splits)

lemma pushSummaries_ids:
  "pushSummaries rows documents = Inr result \<Longrightarrow>
   map (\<lambda>s. getProp s ''id'') result =
     map (\<lambda>s. getProp s ''id'') documents @ map (\<lambda>row. JStr (fst row)) rows"
proof (induction rows arbitrary: documents)
  case Nil
  then show ?case by simp
next
  case (Cons row rows)
  from Cons.prems obtain summary where
    s: "documentSummary row = Inr summary"
    and r: "pushSummaries rows (documents @ [summary]) = Inr result"
    by (auto split: sum.splits)
  from Cons.IH [OF r] documentSummary_id [OF s] show ?case by simp
qed

lemma listDocuments_snapshot:
  assumes "fst (listDocuments env u filters pagination w) = Inr result"
  shows "\<exists>limit cursor documents.
           pushSummaries (listQuery u filters limit cursor (documentsCollection w)) []
             = Inr documents
           \<and> getProp result ''documents'' = JArr documents"
proof -
  have "\<exists>limit cursor documents.
        pushSummaries (listQuery u filters limit cursor (documentsCollection w)) []
          = Inr documents
      \<and> result = JObj
                 [(''documents'', JArr documents),
                  (''pagination'', JObj
                     [(''hasMore'', JBool (int (length documents) = limit)),
                      (''lastDocId'',
                         (if documents = [] then JNull else getProp (last documents) ''id''))]),
                  (''total'', JNum (int (length documents)))]"
    using assms
    by (simp add: listDocuments_def tryCatch_def andThen_def throw_def ret_def consoleError_def
        documentsCollection_get_run documentOp_def Let_def
        split: if_split_asm jsval.splits option.splits sum.splits prod.splits
        del: split_paired_Ex)
      blast+
  then obtain limit cursor documents where
    "pushSummaries (listQuery u filters limit cursor (documentsCollection w)) [] = Inr documents"
    "getProp result ''documents'' = JArr documents"
    by auto
  then show ?thesis by blast
qed

lemma deleted_never_listed:
  assumes del: "deletedIn rid (documentsCollection w)"
    and res: "fst (listDocuments env u filters pagination w) = Inr result"
  shows "JStr rid \<notin> set (listedIds result)"
proof -
  from listDocuments_snapshot [OF res] obtain limit cursor documents where
    push: "pushSummaries (listQuery u filters limit cursor (documentsCollection w)) []
             = Inr documents"
    and docs: "getProp result ''documents'' = JArr documents"
    by blast
  from pushSummaries_ids [OF push] have "set (listedIds result) =
      (\<lambda>row. JStr (fst row)) ` set (listQuery u filters limit cursor (documentsCollection w))"
    by (simp add: listedIds_def docs flip: set_map)
  moreover have "fst row \<noteq> rid"
    if "row \<in> set (listQuery u filters limit cursor (documentsCollection w))" for row
    using del that by (rule deletedIn_not_listed)
  ultimately show ?thesis by auto
qed

lemma andThen_get:
  "andThen (documentsCollection_get env docId) f w =
     (if documentStoreFails env (documentOps w)
      then (Inl (Error ''document store unavailable''), w\<lparr>documentOps := Suc (documentOps w)\<rparr>)
      else f (map_of (documentsCollection w) docId) (w\<lparr>documentOps := Suc (documentOps w)\<rparr>))"
  by (simp add: andThen_def documentsCollection_get_run)

lemma andThen_storageCall:
  "andThen (storageCall g) f w =
     (case g (storageCalls w) of
        Inl e \<Rightarrow> (Inl e, w\<lparr>storageCalls := Suc (storageCalls w)\<rparr>)
      | Inr x \<Rightarrow> f x (w\<lparr>storageCalls := Suc (storageCalls w)\<rparr>))"
  by (simp add: andThen_def storageCall_def split: sum.splits)

lemma andThen_docRef_update:
  "andThen (\<lambda>w. docRef_update env docId (change w) w) f w =
     (if documentStoreFails env (documentOps w)
      then (Inl (Error ''document store unavailable''), w\<lparr>documentOps := Suc (documentOps w)\<rparr>)
      else case map_of (documentsCollection w) docId of
             None \<Rightarrow> (Inl (Error ''No document to update''), w\<lparr>documentOps := Suc (documentOps w)\<rparr>)
           | Some d \<Rightarrow> f () (w\<lparr>documentOps := Suc (documentOps w),
                               documentsCollection :=
                                 AList.update docId (change w d) (documentsCollection w)\<rparr>))"
  by (simp add: andThen_def docRef_update_def documentOp_def throw_def Let_def split: option.splits)

text \<open>What \<open>deleteDocument\<close> does, branch by branch.\<close>

lemma deleteDocument_run:
  "deleteDocument env docId u req w =
     (let w1 = w\<lparr>documentOps := Suc (documentOps w)\<rparr>;
          w2 = w1\<lparr>storageCalls := Suc (storageCalls w)\<rparr>;
          failed = (\<lambda>error w'.
             (Inl error, snd (logEvent env (documentDeleteEvent (deleteFailed docId u req error)) w')))
      in if documentStoreFails env (documentOps w)
         then failed (Error ''document store unavailable'') w1
         else case map_of (documentsCollection w) docId of
           None \<Rightarrow> failed (Error ''Document not found'') w1
         | Some d \<Rightarrow>
             if \<not> canDeleteDocument u d
             then failed (Error ''Insufficient permissions to delete document'')
                    (snd (logEvent env (accessDeniedEvent (deleteDenied docId d u req)) w1))
             else case storage_deleteDocument env (storageCalls w) (fileName d) u of
               Inl e \<Rightarrow> failed e w2
             | Inr _ \<Rightarrow>
                 if documentStoreFails env (Suc (documentOps w))
                 then failed (Error ''document store unavailable'')
                        (w2\<lparr>documentOps := Suc (Suc (documentOps w))\<rparr>)
                 else (Inr (JObj
                          [(''success'', JBool True),
                           (''message'', JStr ''Document deleted successfully''),
                           (''documentId'', JStr docId)]),
                       snd (logEvent env (documentDeleteEvent (deleteDone docId d u req))
                         (w2\<lparr>documentOps := Suc (Suc (documentOps w)),
                             documentsCollection :=
                               AList.update docId
                                 (d\<lparr>isActive := False, deletedAt := Some (now w),
                                    deletedBy := Some (uid u), updatedAt := now w\<rparr>)
                                 (documentsCollection w)\<rparr>))))"
  by (simp add: deleteDocument_def tryCatch_def andThen_get andThen_storageCall
      andThen_docRef_update andThen_logEvent logDocumentDelete_def logAccessDenied_def
      throw_def ret_def Let_def split: option.splits sum.splits)


text \<open>A soft delete that returns has stored the document inactive.\<close>

lemma deleteDocument_deletes:
  assumes wf: "distinct (map fst (documentsCollection w))"
    and ok: "fst (deleteDocument env rid u req w) = Inr res"
  shows "\<exists>d. map_of (documentsCollection w) rid = Some d
     \<and> documentsCollection (snd (deleteDocument env rid u req w)) =
         AList.update rid (d\<lparr>isActive := False, deletedAt := Some (now w),
                                    deletedBy := Some (uid u), updatedAt := now w\<rparr>)
           (documentsCollection w)"
proof -
  from ok obtain d where d: "\<not> documentStoreFails env (documentOps w)"
      "map_of (documentsCollection w) rid = Some d" "canDeleteDocument u d"
      "storage_deleteDocument env (storageCalls w) (fileName d) u = Inr ()"
      "\<not> documentStoreFails env (Suc (documentOps w))"
    unfolding deleteDocument_run Let_def
    by (simp split: if_split_asm option.splits sum.splits)
  then show ?thesis
    by (simp add: deleteDocument_run Let_def logEvent_frame)
qed

lemma deleteDocument_deletedIn:
  assumes wf: "distinct (map fst (documentsCollection w))"
    and ok: "fst (deleteDocument env rid u req w) = Inr res"
  shows "deletedIn rid (documentsCollection (snd (deleteDocument env rid u req w)))"
proof -
  from deleteDocument_deletes [OF assms] obtain d where
    "documentsCollection (snd (deleteDocument env rid u req w)) =
         AList.update rid (d\<lparr>isActive := False, deletedAt := Some (now w),
                                    deletedBy := Some (uid u), updatedAt := now w\<rparr>)
           (documentsCollection w)"
    by blast
  with wf show ?thesis by (simp add: deletedIn_def distinct_update update_conv')
qed

text \<open>The access predicates do not read the fields a soft delete writes.\<close>

lemma access_ignores_deletion:
  "canAccessDocument p (d\<lparr>isActive := a, deletedAt := t, deletedBy := b, updatedAt := t'\<rparr>)
     = canAccessDocument p d"
  by (simp add: canAccessDocument_def)

text \<open>
  C9, amended. After a soft delete of a document has returned, and whatever requests follow
  (uploads, downloads, deletes, listings, signed urls, shares, audit writes, cleanups), the
  document stays stored with \<open>isActive = false\<close> and no listing, for any principal, filter
  or page, contains its id, neither the result of \<open>listDocuments\<close> nor the rows of its
  query; this needs the ids of new uploads to differ from the document's. The access
  decision does not read the deleted flag: it is the same for the deleted record as for
  the record before deletion.
\<close>

theorem C9_soft_delete_terminal:
  assumes wf: "distinct (map fst (documentsCollection w))"
    and deleted: "fst (deleteDocument env rid u req w) = Inr res"
    and fresh: "\<forall>n buf m usr r. storage_uploadDocument env n buf m usr = Inr r \<longrightarrow> documentId r \<noteq> rid"
  shows "softDeleted rid (performAll env ops (snd (deleteDocument env rid u req w)))
     \<and> (\<forall>p filters pagination result.
          fst (listDocuments env p filters pagination
                 (performAll env ops (snd (deleteDocument env rid u req w)))) = Inr result
          \<longrightarrow> JStr rid \<notin> set (listedIds result))
     \<and> (\<forall>p filters limit cursor.
          rid \<notin> fst ` set (listQuery p filters limit cursor
                  (documentsCollection
                     (performAll env ops (snd (deleteDocument env rid u req w))))))
     \<and> (\<forall>p d a t b t'.
          canAccessDocument p (d\<lparr>isActive := a, deletedAt := t, deletedBy := b, updatedAt := t'\<rparr>)
            = canAccessDocument p d)"
proof -
  from fresh have fresh': "\<And>n buf m usr r.
      storage_uploadDocument env n buf m usr = Inr r \<Longrightarrow> documentId r \<noteq> rid"
    by blast
  have inv: "deletedIn rid (documentsCollection
               (performAll env ops (snd (deleteDocument env rid u req w))))"
    by (rule performAll_keeps_deleted [OF fresh' deleteDocument_deletedIn [OF wf deleted]])
  then have "softDeleted rid (performAll env ops (snd (deleteDocument env rid u req w)))"
    by (simp add: deletedIn_iff)
  moreover have "JStr rid \<notin> set (listedIds result)"
    if "fst (listDocuments env p filters pagination
                 (performAll env ops (snd (deleteDocument env rid u req w)))) = Inr result"
    for p filters pagination result
    using inv that by (rule deleted_never_listed)
  moreover have "rid \<notin> fst ` set (listQuery p filters limit cursor
                  (documentsCollection
                     (performAll env ops (snd (deleteDocument env rid u req w)))))"
    for p filters limit cursor
    using deletedIn_not_listed [OF inv] by blast
  ultimately show ?thesis by (simp add: access_ignores_deletion)
qed

lemma hr_deletes_slip:
  "deleteDocument envStorageOk ''doc-1'' hrUser clientContext world0 =
     (Inr (JObj [(''success'', JBool True),
                 (''message'', JStr ''Document deleted successfully''),
                 (''documentId'', JStr ''doc-1'')]),
      snd (logEvent envStorageOk
            (documentDeleteEvent (deleteDone ''doc-1'' slipE1 hrUser clientContext))
            (world0\<lparr>storageCalls := 1, documentOps := 2,
                     documentsCollection := [(''doc-1'', slipDeleted)]\<rparr>)))"
  by (simp add: deleteDocument_run Let_def envStorageOk_def env0_def world0_def hrUser_def
      canDeleteDocument_def hasRole.simps(2) roles_ADMIN_def roles_HR_def slipDeleted_def
      numeral_2_eq_2)

text \<open>
  C9 as stated fails on the access decision: after the HR user has soft-deleted the salary
  slip, \<open>canAccessDocument\<close> still allows the admin, and the employee the slip is about,
  to download it.
\<close>

theorem C9_counterexample:
  "fst (deleteDocument envStorageOk ''doc-1'' hrUser clientContext world0) =
     Inr (JObj [(''success'', JBool True),
                (''message'', JStr ''Document deleted successfully''),
                (''documentId'', JStr ''doc-1'')])
   \<and> map_of (documentsCollection
         (snd (deleteDocument envStorageOk ''doc-1'' hrUser clientContext world0))) ''doc-1''
       = Some slipDeleted
   \<and> \<not> isActive slipDeleted
   \<and> truthy (canAccessDocument adminUser slipDeleted)
   \<and> truthy (canAccessDocument employeeE1 slipDeleted)"
  by (simp add: hr_deletes_slip logEvent_frame)
     (simp add: slipDeleted_def slipE1_def adminUser_def employeeE1_def canAccessDocument_def
        truthy_def roles_ADMIN_def roles_HR_def roles_EMPLOYEE_def)

text \<open>A listing returns when the store answers and the query finds no row.\<close>

lemma listQuery_none_active:
  assumes "\<forall>row \<in> set rows. \<not> isActive (snd row)"
  shows "listQuery u filters limit cursor rows = []"
proof (cases "listQuery u filters limit cursor rows")
  case Nil
  then show ?thesis .
next
  case (Cons row rest)
  then have "row \<in> set (listQuery u filters limit cursor rows)" by simp
  from listQuery_active [OF this] assms show ?thesis by blast
qed

lemma listDocuments_returns:
  assumes "role u \<noteq> Some roles_EMPLOYEE" "getProp pagination ''limit'' = JUndefined"
    "getProp pagination ''startAfter'' = JUndefined" "\<not> documentStoreFails env (documentOps w)"
    "\<forall>row \<in> set (documentsCollection w). \<not> isActive (snd row)"
  shows "\<exists>result. fst (listDocuments env u filters pagination w) = Inr result"
  using assms(1-4)
  by (simp add: listDocuments_def tryCatch_def andThen_def ret_def documentOp_def Let_def
      orElse_def listQuery_none_active [OF assms(5)])

theorem C9_witness:
  "distinct (map fst (documentsCollection world0))
   \<and> fst (deleteDocument envStorageOk ''doc-1'' hrUser clientContext world0) =
       Inr (JObj [(''success'', JBool True),
                  (''message'', JStr ''Document deleted successfully''),
                  (''documentId'', JStr ''doc-1'')])
   \<and> softDeleted ''doc-1''
        (performAll envStorageOk
           [Upload [1, 2, 3] uploadRequest hrUser clientContext,
            Download ''doc-1'' adminUser clientContext,
            Share ''doc-1'' [''uid-e2''] hrUser]
           (snd (deleteDocument envStorageOk ''doc-1'' hrUser clientContext world0)))
   \<and> ''doc-1'' \<notin> fst ` set (listQuery adminUser (JObj []) 20 None
        (documentsCollection
           (performAll envStorageOk
              [Upload [1, 2, 3] uploadRequest hrUser clientContext,
               Download ''doc-1'' adminUser clientContext,
               Share ''doc-1'' [''uid-e2''] hrUser]
              (snd (deleteDocument envStorageOk ''doc-1'' hrUser clientContext world0)))))
   \<and> (\<exists>result.
        fst (listDocuments envStorageOk adminUser (JObj []) (JObj [])
              (snd (deleteDocument envStorageOk ''doc-1'' hrUser clientContext world0)))
          = Inr result
        \<and> JStr ''doc-1'' \<notin> set (listedIds result))"
proof -
  have wf: "distinct (map fst (documentsCollection world0))"
    by (simp add: world0_def)
  have del: "fst (deleteDocument envStorageOk ''doc-1'' hrUser clientContext world0) =
       Inr (JObj [(''success'', JBool True),
                  (''message'', JStr ''Document deleted successfully''),
                  (''documentId'', JStr ''doc-1'')])"
    by (simp add: hr_deletes_slip)
  have fresh: "\<forall>n buf m usr r.
      storage_uploadDocument envStorageOk n buf m usr = Inr r \<longrightarrow> documentId r \<noteq> ''doc-1''"
    by (auto simp: envStorageOk_def)
  note later = C9_soft_delete_terminal [OF wf del fresh,
      of "[Upload [1, 2, 3] uploadRequest hrUser clientContext,
           Download ''doc-1'' adminUser clientContext,
           Share ''doc-1'' [''uid-e2''] hrUser]"]
  note at_once = C9_soft_delete_terminal [OF wf del fresh, of "[]",
      unfolded performAll.simps(1)]
  note stays = later [THEN conjunct1]
  note query = later [THEN conjunct2, THEN conjunct2, THEN conjunct1, rule_format,
      of adminUser "JObj []" 20 None]
  note listing = at_once [THEN conjunct2, THEN conjunct1, rule_format]
  have "documentsCollection
          (snd (deleteDocument envStorageOk ''doc-1'' hrUser clientContext world0))
        = [(''doc-1'', slipDeleted)]"
    by (simp add: hr_deletes_slip logEvent_frame)
  then have "\<exists>result.
      fst (listDocuments envStorageOk adminUser (JObj []) (JObj [])
            (snd (deleteDocument envStorageOk ''doc-1'' hrUser clientContext world0)))
        = Inr result"
    by (intro listDocuments_returns)
       (simp_all add: adminUser_def roles_EMPLOYEE_def envStorageOk_def env0_def
          slipDeleted_def)
  then obtain result where
    r: "fst (listDocuments envStorageOk adminUser (JObj []) (JObj [])
            (snd (deleteDocument envStorageOk ''doc-1'' hrUser clientContext world0)))
        = Inr result"
    by blast
  from r listing [OF r] have listed: "\<exists>result.
        fst (listDocuments envStorageOk adminUser (JObj []) (JObj [])
              (snd (deleteDocument envStorageOk ''doc-1'' hrUser clientContext world0)))
          = Inr result
        \<and> JStr ''doc-1'' \<notin> set (listedIds result)"
    by blast
  show ?thesis by (intro conjI wf del stays query listed)
qed

section \<open>Envelope encryption: theorems\<close>

text \<open>Decoding the base64 form of a buffer gives the buffer back.\<close>

lemma q1: "b < 256 \<Longrightarrow> (a mod 4 * 16 + b div 16) div 16 = (a::nat) mod 4"
  by (simp add: div_mult2_eq)

lemma q2: "c < 256 \<Longrightarrow> (b mod 16 * 4 + c div 64) div 4 = (b::nat) mod 16"
  by (simp add: div_mult2_eq)


















text \<open>The two bytes \<open>Hi\<close> in base64.\<close>

lemma toBase64_Hi: "toBase64 [72, 105] = ''SGk='' \<and> fromBase64 ''SGk='' = [72, 105]"
  by code_simp

text \<open>The stand-in key service undoes its own encryption; \<open>encryptData\<close> run on the two
  bytes \<open>Hi\<close> with it.\<close>

lemma toyKms_inverse:
  "kmsEncrypt toyKms toyKeyId key = Some wrapped \<Longrightarrow> kmsDecrypt toyKms toyKeyId wrapped = Some key"
  by (auto simp: toyKms_def)

lemma encryptData_Hi:
  "encryptData toyKms toyKeyId toyDek toyIv (Buffer [72, 105]) = Inl (Error ''Encryption failed'')"
  by (simp add: encryptData_def crypto_createCipherGCM_def)

text \<open>
  C1 fails on the code. \<open>encryptData\<close> calls \<open>crypto.createCipherGCM\<close>, which Node's
  \<open>crypto\<close> module does not have, so for every plaintext, buffer or string, every data key,
  every nonce and every key service, it throws \<open>Error('Encryption failed')\<close> and produces
  no envelope. Hence \<open>decryptData(await encryptData(P))\<close> throws that error and does not
  return the bytes of \<open>P\<close>, also when the key service's decrypt undoes its encrypt.
\<close>

theorem C1_encryptData_always_throws:
  "encryptData kms keyId dek ivBytes data = Inl (Error ''Encryption failed'')
   \<and> decryptEncrypted kms keyId dek ivBytes data = Inl (Error ''Encryption failed'')
   \<and> decryptEncrypted kms keyId dek ivBytes data \<noteq> Inr (toBuffer data)"
  by (simp add: decryptEncrypted_def encryptData_def crypto_createCipherGCM_def)



end
